theory Spec2Isabelle
  imports Main
begin

section \<open>Python values\<close>

text \<open>
  A Python \<^verbatim>\<open>str\<close> is a sequence of Unicode code points, and that is what \<^verbatim>\<open>len\<close>,
  indexing and \<^verbatim>\<open>==\<close> see. It is modelled as a list of natural numbers; \<open>str ''abc''\<close>
  is the text of an ASCII literal.
\<close>

type_synonym pystr = "nat list"

abbreviation ch :: "char \<Rightarrow> nat" where
  "ch \<equiv> of_char"

definition str :: "string \<Rightarrow> pystr" where
  "str s = map ch s"

text \<open>
  The exceptions that can occur in the program. \<open>ClientError code\<close> is botocore's
  exception with \<^verbatim>\<open>e.response['Error']['Code'] = code\<close>.
\<close>

datatype exn =
    JSONDecodeError
  | ValueError
  | RecursionError
  | AttributeError
  | KeyError
  | ClientError pystr

definition startswith :: "pystr \<Rightarrow> pystr \<Rightarrow> bool" where
  "startswith s p = (take (length p) s = p)"

definition endswith :: "pystr \<Rightarrow> pystr \<Rightarrow> bool" where
  "endswith s p = (length p \<le> length s \<and> drop (length s - length p) s = p)"

definition isascii :: "pystr \<Rightarrow> bool" where
  "isascii s = (\<forall>c \<in> set s. c < 128)"

definition ascii_isalpha :: "nat \<Rightarrow> bool" where
  "ascii_isalpha c =
     ((ch CHR ''a'' \<le> c \<and> c \<le> ch CHR ''z'') \<or> (ch CHR ''A'' \<le> c \<and> c \<le> ch CHR ''Z''))"

definition ascii_lower :: "nat \<Rightarrow> nat" where
  "ascii_lower c = (if ch CHR ''A'' \<le> c \<and> c \<le> ch CHR ''Z'' then c + 32 else c)"

definition is_digit :: "nat \<Rightarrow> bool" where
  "is_digit c = (ch CHR ''0'' \<le> c \<and> c \<le> ch CHR ''9'')"

definition is_hex :: "nat \<Rightarrow> bool" where
  "is_hex c =
     (is_digit c \<or> (ch CHR ''a'' \<le> c \<and> c \<le> ch CHR ''f'') \<or> (ch CHR ''A'' \<le> c \<and> c \<le> ch CHR ''F''))"

text \<open>\<^verbatim>\<open>s.partition(sep)\<close> for a one-character separator: head, found, tail.\<close>

definition partition_at :: "nat \<Rightarrow> pystr \<Rightarrow> pystr \<times> bool \<times> pystr" where
  "partition_at sep s =
     (takeWhile (\<lambda>c. c \<noteq> sep) s, sep \<in> set s, drop 1 (dropWhile (\<lambda>c. c \<noteq> sep) s))"

section \<open>The standard library: urllib.parse.urlparse\<close>

text \<open>
  \<^verbatim>\<open>url_valida\<close> calls \<^verbatim>\<open>urlparse\<close> and reads the fields \<^verbatim>\<open>scheme\<close> and \<^verbatim>\<open>netloc\<close> of
  its result. The library is not part of the repository; the model below follows
  \<^verbatim>\<open>urlsplit\<close> of CPython 3.11 and computes these two fields and the \<^verbatim>\<open>ValueError\<close>s that
  \<^verbatim>\<open>urlsplit\<close> raises. Path, parameters, query and fragment are not read by the program
  and their computation raises nothing, so they are left out.

  Two checks of \<^verbatim>\<open>urlsplit\<close> consult tables of other modules: \<^verbatim>\<open>ipaddress.ip_address\<close>
  for a bracketed host and \<^verbatim>\<open>unicodedata.normalize('NFKC', _)\<close> for a netloc that is not
  ASCII. They are parameters of the model, collected in \<open>pylib\<close>; every theorem holds for all
  of their values.
\<close>

datatype ip_version = IPv4Address | IPv6Address

record pylib =
  ip_address :: "pystr \<Rightarrow> ip_version option"
  normalize_NFKC :: "pystr \<Rightarrow> pystr"

record parse_result =
  scheme :: pystr
  netloc :: pystr

definition scheme_chars :: pystr where
  "scheme_chars = str ''abcdefghijklmnopqrstuvwxyzABCDEFGHIJKLMNOPQRSTUVWXYZ0123456789+-.''"

text \<open>
  \<^verbatim>\<open>_check_bracketed_host\<close>: an IPvFuture literal must match
  \<^verbatim>\<open>\Av[a-fA-F0-9]+\..+\Z\<close>; anything else must parse as an IPv6 address.
\<close>

definition check_bracketed_host :: "pylib \<Rightarrow> pystr \<Rightarrow> exn option" where
  "check_bracketed_host L hostname =
     (if startswith hostname (str ''v'') then
        (if takeWhile is_hex (drop 1 hostname) \<noteq> []
            \<and> startswith (dropWhile is_hex (drop 1 hostname)) (str ''.'')
            \<and> drop 1 (dropWhile is_hex (drop 1 hostname)) \<noteq> []
            \<and> 10 \<notin> set (drop 1 (dropWhile is_hex (drop 1 hostname)))
         then None else Some ValueError)
      else
        (case ip_address L hostname of
           Some IPv6Address \<Rightarrow> None
         | _ \<Rightarrow> Some ValueError))"

text \<open>
  \<^verbatim>\<open>_checknetloc\<close>: a netloc that is not ASCII must not gain one of \<^verbatim>\<open>/?#@:\<close> under NFKC
  normalisation.
\<close>

definition checknetloc :: "pylib \<Rightarrow> pystr \<Rightarrow> exn option" where
  "checknetloc L nl =
     (if nl = [] \<or> isascii nl then None
      else if filter (\<lambda>c. c \<notin> set (str ''@:#?'')) nl
              = normalize_NFKC L (filter (\<lambda>c. c \<notin> set (str ''@:#?'')) nl)
      then None
      else if \<exists>c \<in> set (str ''/?#@:'').
                c \<in> set (normalize_NFKC L (filter (\<lambda>c. c \<notin> set (str ''@:#?'')) nl))
      then Some ValueError
      else None)"

text \<open>
  The scheme: \<^verbatim>\<open>i = url.find(':')\<close>; when \<^verbatim>\<open>i > 0\<close>, the first character is an ASCII letter
  and all of \<^verbatim>\<open>url[:i]\<close> are scheme characters, the scheme is \<^verbatim>\<open>url[:i].lower()\<close> and the
  rest is \<^verbatim>\<open>url[i+1:]\<close>. Otherwise the scheme stays the default \<^verbatim>\<open>''\<close>.
\<close>

definition split_scheme :: "pystr \<Rightarrow> pystr \<times> pystr" where
  "split_scheme url =
     (case takeWhile (\<lambda>c. c \<noteq> ch CHR '':'') url of
        [] \<Rightarrow> ([], url)
      | c0 # pre \<Rightarrow>
          if ch CHR '':'' \<in> set url \<and> c0 < 128 \<and> ascii_isalpha c0
             \<and> (\<forall>c \<in> set (c0 # pre). c \<in> set scheme_chars)
          then (map ascii_lower (c0 # pre), drop (Suc (Suc (length pre))) url)
          else ([], url))"

text \<open>\<^verbatim>\<open>_splitnetloc(url, 2)\<close>: the text after \<^verbatim>\<open>//\<close> up to the first of \<^verbatim>\<open>/?#\<close>.\<close>

definition splitnetloc :: "pystr \<Rightarrow> pystr" where
  "splitnetloc url = takeWhile (\<lambda>c. c \<notin> set (str ''/?#'')) (drop 2 url)"

definition check_brackets :: "pylib \<Rightarrow> pystr \<Rightarrow> exn option" where
  "check_brackets L nl =
     (if (ch CHR ''['' \<in> set nl \<and> ch CHR '']'' \<notin> set nl)
         \<or> (ch CHR '']'' \<in> set nl \<and> ch CHR ''['' \<notin> set nl)
      then Some ValueError
      else if ch CHR ''['' \<in> set nl \<and> ch CHR '']'' \<in> set nl
      then check_bracketed_host L
             (fst (partition_at (ch CHR '']'') (snd (snd (partition_at (ch CHR ''['') nl)))))
      else None)"

text \<open>
  \<^verbatim>\<open>urlsplit\<close>: leading C0 control characters and spaces are stripped, tab, carriage
  return and newline are removed everywhere, then scheme and netloc are split off.
\<close>

definition strip_url :: "pystr \<Rightarrow> pystr" where
  "strip_url url = filter (\<lambda>c. c \<noteq> 9 \<and> c \<noteq> 13 \<and> c \<noteq> 10) (dropWhile (\<lambda>c. c \<le> 32) url)"

definition urlparse :: "pylib \<Rightarrow> pystr \<Rightarrow> exn + parse_result" where
  "urlparse L url =
     (case split_scheme (strip_url url) of
        (sch, rest) \<Rightarrow>
          if startswith rest (str ''//'') then
            (case check_brackets L (splitnetloc rest) of
               Some e \<Rightarrow> Inl e
             | None \<Rightarrow>
                 (case checknetloc L (splitnetloc rest) of
                    Some e \<Rightarrow> Inl e
                  | None \<Rightarrow> Inr \<lparr>scheme = sch, netloc = splitnetloc rest\<rparr>))
          else Inr \<lparr>scheme = sch, netloc = []\<rparr>)"

section \<open>The standard library: json.loads\<close>

text \<open>
  \<^verbatim>\<open>criar_encurtamento\<close> decodes the request body with \<^verbatim>\<open>json.loads\<close>. The model follows
  CPython's \<^verbatim>\<open>json.decoder\<close> and \<^verbatim>\<open>json.scanner\<close>: the same grammar (with the constants
  \<^verbatim>\<open>NaN\<close>, \<^verbatim>\<open>Infinity\<close> and \<^verbatim>\<open>-Infinity\<close>), strict strings, the last of several equal
  keys wins. A number keeps the text of its literal: the program never computes with it.
\<close>

datatype json =
    JNull
  | JBool bool
  | JNum pystr
  | JStr pystr
  | JArr "json list"
  | JObj "(pystr \<times> json) list"

text \<open>\<^verbatim>\<open>d.get(k)\<close> on the pairs of a decoded object, in the order they were read.\<close>

definition dict_get :: "(pystr \<times> 'v) list \<Rightarrow> pystr \<Rightarrow> 'v option" where
  "dict_get kvs k = map_of (rev kvs) k"

definition is_ws :: "nat \<Rightarrow> bool" where
  "is_ws c = (c = 32 \<or> c = 9 \<or> c = 10 \<or> c = 13)"

definition skip_ws :: "pystr \<Rightarrow> pystr" where
  "skip_ws = dropWhile is_ws"

definition hex_val :: "nat \<Rightarrow> nat" where
  "hex_val c =
     (if is_digit c then c - ch CHR ''0''
      else if ch CHR ''a'' \<le> c \<and> c \<le> ch CHR ''f'' then c - ch CHR ''a'' + 10
      else c - ch CHR ''A'' + 10)"

definition hex4 :: "nat \<Rightarrow> nat \<Rightarrow> nat \<Rightarrow> nat \<Rightarrow> nat option" where
  "hex4 a b c d =
     (if is_hex a \<and> is_hex b \<and> is_hex c \<and> is_hex d
      then Some (((hex_val a * 16 + hex_val b) * 16 + hex_val c) * 16 + hex_val d)
      else None)"

text \<open>The escape table of the decoder: \<^verbatim>\<open>" \ / b f n r t\<close>.\<close>

definition BACKSLASH :: "nat \<Rightarrow> nat option" where
  "BACKSLASH e =
     (if e = ch (CHR 0x22) then Some (ch (CHR 0x22))
      else if e = ch (CHR 0x5C) then Some (ch (CHR 0x5C))
      else if e = ch CHR ''/'' then Some (ch CHR ''/'')
      else if e = ch CHR ''b'' then Some 8
      else if e = ch CHR ''f'' then Some 12
      else if e = ch CHR ''n'' then Some 10
      else if e = ch CHR ''r'' then Some 13
      else if e = ch CHR ''t'' then Some 9
      else None)"

text \<open>A \<^verbatim>\<open>\uXXXX\<close> escape of a low surrogate at the head of the text.\<close>

definition low_surrogate :: "pystr \<Rightarrow> nat option" where
  "low_surrogate s =
     (case s of
        b # u # l1 # l2 # l3 # l4 # _ \<Rightarrow>
          if b = ch (CHR 0x5C) \<and> u = ch CHR ''u'' then
            (case hex4 l1 l2 l3 l4 of
               Some uni2 \<Rightarrow> if 0xDC00 \<le> uni2 \<and> uni2 \<le> 0xDFFF then Some uni2 else None
             | None \<Rightarrow> None)
          else None
      | _ \<Rightarrow> None)"

text \<open>
  \<^verbatim>\<open>scanstring\<close>, called after the opening quote: the decoded string and the text after
  the closing quote. A control character, an unknown escape and the end of the text raise.
\<close>

fun scanstring :: "pystr \<Rightarrow> pystr \<Rightarrow> exn + (pystr \<times> pystr)" where
  "scanstring acc [] = Inl JSONDecodeError"
| "scanstring acc (c # cs) =
     (if c = ch (CHR 0x22) then Inr (acc, cs)
      else if c = ch (CHR 0x5C) then
        (case cs of
           [] \<Rightarrow> Inl JSONDecodeError
         | e # cs1 \<Rightarrow>
             if e = ch CHR ''u'' then
               (case cs1 of
                  h1 # h2 # h3 # h4 # cs2 \<Rightarrow>
                    (case hex4 h1 h2 h3 h4 of
                       None \<Rightarrow> Inl JSONDecodeError
                     | Some uni \<Rightarrow>
                         if 0xD800 \<le> uni \<and> uni \<le> 0xDBFF then
                           (case low_surrogate cs2 of
                              Some uni2 \<Rightarrow>
                                scanstring
                                  (acc @ [0x10000 + (uni - 0xD800) * 1024 + (uni2 - 0xDC00)])
                                  (drop 6 cs2)
                            | None \<Rightarrow> scanstring (acc @ [uni]) cs2)
                         else scanstring (acc @ [uni]) cs2)
                | _ \<Rightarrow> Inl JSONDecodeError)
             else
               (case BACKSLASH e of
                  None \<Rightarrow> Inl JSONDecodeError
                | Some x \<Rightarrow> scanstring (acc @ [x]) cs1))
      else if c < 32 then Inl JSONDecodeError
      else scanstring (acc @ [c]) cs)"

text \<open>
  The number pattern \<^verbatim>\<open>(-?(?:0|[1-9]\d*))(\.\d+)?([eE][-+]?\d+)?\<close>, one group at a time.
\<close>

definition int_digits :: "nat \<Rightarrow> pystr \<Rightarrow> pystr" where
  "int_digits d ds = (if d = ch CHR ''0'' then [d] else d # takeWhile is_digit ds)"

definition match_integer :: "pystr \<Rightarrow> pystr option" where
  "match_integer s =
     (case s of
        [] \<Rightarrow> None
      | c # cs \<Rightarrow>
          if c = ch CHR ''-'' then
            (case cs of
               [] \<Rightarrow> None
             | d # ds \<Rightarrow> if is_digit d then Some (c # int_digits d ds) else None)
          else if is_digit c then Some (int_digits c cs)
          else None)"

definition match_frac :: "pystr \<Rightarrow> pystr" where
  "match_frac s =
     (case s of
        [] \<Rightarrow> []
      | c # cs \<Rightarrow>
          if c = ch CHR ''.'' \<and> takeWhile is_digit cs \<noteq> [] then c # takeWhile is_digit cs
          else [])"

definition match_exp :: "pystr \<Rightarrow> pystr" where
  "match_exp s =
     (case s of
        [] \<Rightarrow> []
      | c # cs \<Rightarrow>
          if c = ch CHR ''e'' \<or> c = ch CHR ''E'' then
            (case cs of
               [] \<Rightarrow> []
             | g # gs \<Rightarrow>
                 if g = ch CHR ''+'' \<or> g = ch CHR ''-'' then
                   (if takeWhile is_digit gs \<noteq> [] then c # g # takeWhile is_digit gs else [])
                 else if takeWhile is_digit cs \<noteq> [] then c # takeWhile is_digit cs
                 else [])
          else [])"

definition match_number :: "pystr \<Rightarrow> (pystr \<times> pystr \<times> pystr) option" where
  "match_number s =
     (case match_integer s of
        None \<Rightarrow> None
      | Some i \<Rightarrow>
          (case match_frac (drop (length i) s) of
             f \<Rightarrow> Some (i, f, match_exp (drop (length i + length f) s))))"

text \<open>An integer literal of more digits than this makes \<^verbatim>\<open>int\<close> raise \<^verbatim>\<open>ValueError\<close>.\<close>

definition int_max_str_digits :: nat where
  "int_max_str_digits = 4300"

text \<open>
  The scanner and the loops of \<^verbatim>\<open>JSONArray\<close> and \<^verbatim>\<open>JSONObject\<close>. \<open>JSONArray\<close> is called at
  the first character of an element, \<open>JSONObject\<close> after the opening quote of a key. The
  first argument bounds the number of nested calls; \<open>json_loads\<close> starts with twice the
  length of the text, and every second call consumes a character, so the bound is never
  reached (\<open>json_loads_fuel\<close> below).
\<close>

fun scan_once :: "nat \<Rightarrow> pystr \<Rightarrow> exn + (json \<times> pystr)"
  and JSONArray :: "nat \<Rightarrow> json list \<Rightarrow> pystr \<Rightarrow> exn + (json \<times> pystr)"
  and JSONObject :: "nat \<Rightarrow> (pystr \<times> json) list \<Rightarrow> pystr \<Rightarrow> exn + (json \<times> pystr)"
where
  "scan_once 0 s = Inl RecursionError"
| "scan_once (Suc n) s =
     (case s of
        [] \<Rightarrow> Inl JSONDecodeError
      | c # cs \<Rightarrow>
          if c = ch (CHR 0x22) then
            (case scanstring [] cs of
               Inl e \<Rightarrow> Inl e
             | Inr (v, rest) \<Rightarrow> Inr (JStr v, rest))
          else if c = ch CHR ''{'' then
            (case skip_ws cs of
               [] \<Rightarrow> Inl JSONDecodeError
             | d # ds \<Rightarrow>
                 if d = ch CHR ''}'' then Inr (JObj [], ds)
                 else if d = ch (CHR 0x22) then JSONObject n [] ds
                 else Inl JSONDecodeError)
          else if c = ch CHR ''['' then
            (if startswith (skip_ws cs) (str '']'') then Inr (JArr [], drop 1 (skip_ws cs))
             else JSONArray n [] (skip_ws cs))
          else if startswith s (str ''null'') then Inr (JNull, drop 4 s)
          else if startswith s (str ''true'') then Inr (JBool True, drop 4 s)
          else if startswith s (str ''false'') then Inr (JBool False, drop 5 s)
          else
            (case match_number s of
               Some (i, f, e) \<Rightarrow>
                 if f = [] \<and> e = [] \<and> length (filter is_digit i) > int_max_str_digits
                 then Inl ValueError
                 else Inr (JNum (i @ f @ e), drop (length i + length f + length e) s)
             | None \<Rightarrow>
                 if startswith s (str ''NaN'') then Inr (JNum (str ''NaN''), drop 3 s)
                 else if startswith s (str ''Infinity'') then Inr (JNum (str ''Infinity''), drop 8 s)
                 else if startswith s (str ''-Infinity'') then Inr (JNum (str ''-Infinity''), drop 9 s)
                 else Inl JSONDecodeError))"
| "JSONArray 0 vals s = Inl RecursionError"
| "JSONArray (Suc n) vals s =
     (case scan_once n s of
        Inl e \<Rightarrow> Inl e
      | Inr (v, rest) \<Rightarrow>
          (case skip_ws rest of
             [] \<Rightarrow> Inl JSONDecodeError
           | d # ds \<Rightarrow>
               if d = ch CHR '']'' then Inr (JArr (vals @ [v]), ds)
               else if d = ch CHR '','' then JSONArray n (vals @ [v]) (skip_ws ds)
               else Inl JSONDecodeError))"
| "JSONObject 0 pairs s = Inl RecursionError"
| "JSONObject (Suc n) pairs s =
     (case scanstring [] s of
        Inl e \<Rightarrow> Inl e
      | Inr (key, rest) \<Rightarrow>
          (case skip_ws rest of
             [] \<Rightarrow> Inl JSONDecodeError
           | c # cs \<Rightarrow>
               if c \<noteq> ch CHR '':'' then Inl JSONDecodeError
               else
                 (case scan_once n (skip_ws cs) of
                    Inl e \<Rightarrow> Inl e
                  | Inr (v, rest') \<Rightarrow>
                      (case skip_ws rest' of
                         [] \<Rightarrow> Inl JSONDecodeError
                       | d # ds \<Rightarrow>
                           if d = ch CHR ''}'' then Inr (JObj (pairs @ [(key, v)]), ds)
                           else if d = ch CHR '','' then
                             (case skip_ws ds of
                                [] \<Rightarrow> Inl JSONDecodeError
                              | q # qs \<Rightarrow>
                                  if q = ch (CHR 0x22) then JSONObject n (pairs @ [(key, v)]) qs
                                  else Inl JSONDecodeError)
                           else Inl JSONDecodeError))))"

text \<open>
  \<^verbatim>\<open>json.loads\<close> on a \<^verbatim>\<open>str\<close>: a byte order mark is refused, white space around the one
  value is skipped, anything after it is \<^verbatim>\<open>Extra data\<close>.
\<close>

definition json_loads :: "pystr \<Rightarrow> exn + json" where
  "json_loads s =
     (if startswith s [0xFEFF] then Inl JSONDecodeError
      else
        (case scan_once (Suc (Suc (length s + length s))) (skip_ws s) of
           Inl e \<Rightarrow> Inl e
         | Inr (v, rest) \<Rightarrow> if skip_ws rest = [] then Inr v else Inl JSONDecodeError))"

section \<open>The table\<close>

text \<open>
  \<^verbatim>\<open>tabela\<close> is a DynamoDB table whose key attribute is \<^verbatim>\<open>codigo\<close>. An item is a dictionary
  of attributes. The program reads one attribute, \<^verbatim>\<open>url_original\<close>, tests its truth value
  and passes it to \<^verbatim>\<open>url_valida\<close>; a value that is not a string (a number, a set, a list, a
  map, binary data, a Boolean, null) is represented by its truth value, the only thing the
  program observes of it. The table also records the calls made to it, in order.
  Failures of the service itself (network, permissions, throttling) are not modelled: an
  insert either succeeds or fails its condition, a lookup answers.
\<close>

datatype attr = AttrS pystr | AttrOutro bool

type_synonym item = "(pystr \<times> attr) list"

datatype chamada = PutItem pystr | GetItem pystr

record tabela =
  items :: "pystr \<Rightarrow> item option"
  chamadas :: "chamada list"

definition ConditionalCheckFailedException :: pystr where
  "ConditionalCheckFailedException = str ''ConditionalCheckFailedException''"

text \<open>
  \<^verbatim>\<open>tabela.put_item(Item=..., ConditionExpression="attribute_not_exists(codigo)")\<close> with the
  item's key \<open>k\<close>: the item is written when no item has the key, and the call raises
  \<^verbatim>\<open>ClientError\<close> with code \<^verbatim>\<open>ConditionalCheckFailedException\<close>, writing nothing, otherwise.
\<close>

definition put_item :: "tabela \<Rightarrow> pystr \<Rightarrow> item \<Rightarrow> exn option \<times> tabela" where
  "put_item t k it =
     (if items t k = None
      then (None, t\<lparr>items := (items t)(k \<mapsto> it), chamadas := chamadas t @ [PutItem k]\<rparr>)
      else (Some (ClientError ConditionalCheckFailedException),
            t\<lparr>chamadas := chamadas t @ [PutItem k]\<rparr>))"

text \<open>\<^verbatim>\<open>tabela.get_item(Key={"codigo": k}).get("Item")\<close>.\<close>

definition get_item :: "tabela \<Rightarrow> pystr \<Rightarrow> item option \<times> tabela" where
  "get_item t k = (items t k, t\<lparr>chamadas := chamadas t @ [GetItem k]\<rparr>)"

text \<open>The keys of the inserts that were attempted on the table, in order.\<close>

definition escritas :: "tabela \<Rightarrow> pystr list" where
  "escritas t = concat (map (\<lambda>c. case c of PutItem k \<Rightarrow> [k] | GetItem k \<Rightarrow> []) (chamadas t))"

text \<open>DynamoDB stores no item whose key is the empty string.\<close>

definition tabela_ok :: "tabela \<Rightarrow> bool" where
  "tabela_ok t = (items t [] = None)"

section \<open>The program\<close>

subsection \<open>Requests and responses\<close>

text \<open>
  The event of API Gateway. \<^verbatim>\<open>httpMethod\<close> and \<^verbatim>\<open>body\<close> are read with \<^verbatim>\<open>evento.get\<close>:
  \<open>None\<close> is a missing key or a null. \<^verbatim>\<open>path\<close> is read with \<^verbatim>\<open>evento.get("path", "")\<close>:
  \<open>None\<close> is a missing key; when present it is a string. \<^verbatim>\<open>pathParameters\<close> is read with
  \<^verbatim>\<open>evento.get\<close> by \<^verbatim>\<open>handler\<close> and with \<^verbatim>\<open>evento["pathParameters"]\<close> by \<^verbatim>\<open>redirecionar\<close>,
  which tell a missing key from a null; its value is a dictionary of strings.
\<close>

datatype 'a campo = Ausente | Nulo | Valor 'a

record evento =
  httpMethod :: "pystr option"
  path :: "pystr option"
  pathParameters :: "(pystr \<times> pystr) list campo"
  ev_body :: "pystr option"

text \<open>
  The response. Its body is either the empty string or \<^verbatim>\<open>json.dumps\<close> of a dictionary:
  \<^verbatim>\<open>{"erro": ...}\<close> with one of the program's messages or \<^verbatim>\<open>str(e)\<close> of an exception, or
  \<^verbatim>\<open>{"mensagem": ..., "codigo": ..., "url_encurtada": ...}\<close>. The serialised text is not
  modelled, the dictionary is. \<open>headers = []\<close> is a response without the key \<^verbatim>\<open>headers\<close>.
\<close>

datatype erro =
    URL_invalida
  | Falha_ao_gerar_codigo_unico
  | Codigo_nao_informado
  | Codigo_nao_encontrado
  | URL_original_invalida_no_DB
  | Requisicao_invalida
  | Excecao exn

datatype corpo = Vazio | Erro erro | Encurtada pystr pystr

record resposta =
  statusCode :: nat
  headers :: "(pystr \<times> pystr) list"
  body :: corpo

definition resp :: "nat \<Rightarrow> corpo \<Rightarrow> resposta" where
  "resp st b = \<lparr>statusCode = st, headers = [], body = b\<rparr>"

subsection \<open>gerar_codigo\<close>

text \<open>
  \<^verbatim>\<open>random.choices(CARACTERES, k=tamanho)\<close> draws \<^verbatim>\<open>tamanho\<close> indices below
  \<^verbatim>\<open>len(CARACTERES)\<close>. The generator is a stream of natural numbers, each reduced to an
  index; \<open>gerar_codigo\<close> returns the code and the rest of the stream.
\<close>

type_synonym rng = "nat \<Rightarrow> nat"

definition TAMANHO_CODIGO :: nat where
  "TAMANHO_CODIGO = 6"

definition CARACTERES :: pystr where
  "CARACTERES = str ''abcdefghijklmnopqrstuvwxyzABCDEFGHIJKLMNOPQRSTUVWXYZ0123456789''"

definition gerar_codigo :: "rng \<Rightarrow> pystr \<times> rng" where
  "gerar_codigo r =
     (map (\<lambda>i. CARACTERES ! (r i mod length CARACTERES)) [0..<TAMANHO_CODIGO],
      \<lambda>i. r (i + TAMANHO_CODIGO))"

subsection \<open>url_valida\<close>

text \<open>
  \<^verbatim>\<open>p.scheme in ("http", "https") and p.netloc != ""\<close>, and \<open>False\<close> when \<^verbatim>\<open>urlparse\<close>
  raises (the bare \<^verbatim>\<open>except\<close>).
\<close>

definition url_valida :: "pylib \<Rightarrow> pystr \<Rightarrow> bool" where
  "url_valida L url =
     (case urlparse L url of
        Inl e \<Rightarrow> False
      | Inr p \<Rightarrow> (scheme p = str ''http'' \<or> scheme p = str ''https'') \<and> netloc p \<noteq> [])"

subsection \<open>criar_encurtamento\<close>

text \<open>
  The handler of the insert names its exception class \<^verbatim>\<open>boto3.exceptions.ClientError\<close>.
  Python evaluates this expression when an exception reaches the handler, and the
  attribute lookup raises \<^verbatim>\<open>AttributeError\<close> when the module does not bind the name.
  boto3 is not part of the repository. These are the names its module
  \<^verbatim>\<open>boto3/exceptions.py\<close> binds: the module imports \<^verbatim>\<open>botocore.exceptions\<close> and defines its
  own classes. \<^verbatim>\<open>ClientError\<close> is a class of \<^verbatim>\<open>botocore.exceptions\<close> and is not among them.
\<close>

definition boto3_exceptions :: "string list" where
  "boto3_exceptions =
     [''botocore'', ''Boto3Error'', ''ResourceLoadException'', ''NoVersionFound'',
      ''UnknownAPIVersionError'', ''ResourceNotExistsError'', ''RetriesExceededError'',
      ''S3TransferFailedError'', ''S3UploadFailedError'',
      ''DynamoDBOperationNotSupportedError'', ''DynamoDBNeedsConditionError'',
      ''DynamoDBNeedsKeyConditionError'', ''PythonDeprecationWarning'']"

text \<open>
  The loop \<^verbatim>\<open>for _ in range(5)\<close> with its \<^verbatim>\<open>else\<close>: the code inserted after a \<^verbatim>\<open>break\<close>,
  the loop running to its end, or an exception leaving the loop. \<open>ns\<close> is the list of names
  that the module \<^verbatim>\<open>boto3.exceptions\<close> binds.
\<close>

datatype tentativa = Inserido pystr | Esgotado | Levantou exn

fun tentar :: "string list \<Rightarrow> nat list \<Rightarrow> pystr \<Rightarrow> rng \<Rightarrow> tabela \<Rightarrow> tentativa \<times> rng \<times> tabela" where
  "tentar ns [] url r t = (Esgotado, r, t)"
| "tentar ns (_ # rest) url r t =
     (case gerar_codigo r of
        (codigo, r') \<Rightarrow>
          (case put_item t codigo [(str ''codigo'', AttrS codigo), (str ''url_original'', AttrS url)] of
             (None, t') \<Rightarrow> (Inserido codigo, r', t')
           | (Some e, t') \<Rightarrow>
               if ''ClientError'' \<notin> set ns then (Levantou AttributeError, r', t')
               else
                 (case e of
                    ClientError code \<Rightarrow>
                      if code = ConditionalCheckFailedException then tentar ns rest url r' t'
                      else (Levantou e, r', t')
                  | _ \<Rightarrow> (Levantou e, r', t'))))"

text \<open>
  \<^verbatim>\<open>json.loads(evento.get("body") or "{}")\<close>, then \<^verbatim>\<open>corpo.get("url")\<close>, which raises
  \<^verbatim>\<open>AttributeError\<close> unless the decoded value is a dictionary. The test
  \<^verbatim>\<open>not url_original or not url_valida(url_original)\<close> holds for every value that is not a
  string: for a falsy one by its first half, for the others because \<^verbatim>\<open>urlparse\<close> raises
  on them and \<^verbatim>\<open>url_valida\<close> answers \<open>False\<close>. For a string it is as written. Every
  exception ends in the outer handler, which answers 500 with \<^verbatim>\<open>str(e)\<close>.
\<close>

definition corpo_texto :: "evento \<Rightarrow> pystr" where
  "corpo_texto ev =
     (case ev_body ev of
        None \<Rightarrow> str ''{}''
      | Some b \<Rightarrow> if b = [] then str ''{}'' else b)"

definition criar_encurtamento :: "pylib \<Rightarrow> evento \<Rightarrow> rng \<Rightarrow> tabela \<Rightarrow> resposta \<times> rng \<times> tabela" where
  "criar_encurtamento L ev r t =
     (case json_loads (corpo_texto ev) of
        Inl e \<Rightarrow> (resp 500 (Erro (Excecao e)), r, t)
      | Inr (JObj kvs) \<Rightarrow>
          (case dict_get kvs (str ''url'') of
             Some (JStr url_original) \<Rightarrow>
               if url_original = [] \<or> \<not> url_valida L url_original
               then (resp 400 (Erro URL_invalida), r, t)
               else
                 (case tentar boto3_exceptions [0..<5] url_original r t of
                    (Inserido codigo, r', t') \<Rightarrow>
                      (resp 201 (Encurtada codigo (str ''/'' @ codigo)), r', t')
                  | (Esgotado, r', t') \<Rightarrow> (resp 500 (Erro Falha_ao_gerar_codigo_unico), r', t')
                  | (Levantou e, r', t') \<Rightarrow> (resp 500 (Erro (Excecao e)), r', t'))
           | _ \<Rightarrow> (resp 400 (Erro URL_invalida), r, t))
      | Inr _ \<Rightarrow> (resp 500 (Erro (Excecao AttributeError)), r, t))"

subsection \<open>redirecionar\<close>

text \<open>
  \<^verbatim>\<open>evento["pathParameters"].get("codigo")\<close> raises \<^verbatim>\<open>KeyError\<close> on a missing key and
  \<^verbatim>\<open>AttributeError\<close> on a null. \<^verbatim>\<open>not url_original\<close> holds for a missing item, a missing
  attribute, the empty string and a falsy value of another type; \<^verbatim>\<open>url_valida\<close> answers
  \<open>False\<close> on a value that is not a string.
\<close>

definition redirecionar :: "pylib \<Rightarrow> evento \<Rightarrow> tabela \<Rightarrow> resposta \<times> tabela" where
  "redirecionar L ev t =
     (case pathParameters ev of
        Ausente \<Rightarrow> (resp 500 (Erro (Excecao KeyError)), t)
      | Nulo \<Rightarrow> (resp 500 (Erro (Excecao AttributeError)), t)
      | Valor ps \<Rightarrow>
          (case map_of ps (str ''codigo'') of
             None \<Rightarrow> (resp 400 (Erro Codigo_nao_informado), t)
           | Some codigo \<Rightarrow>
               if codigo = [] then (resp 400 (Erro Codigo_nao_informado), t)
               else
                 (case get_item t codigo of
                    (None, t') \<Rightarrow> (resp 404 (Erro Codigo_nao_encontrado), t')
                  | (Some it, t') \<Rightarrow>
                      (case map_of it (str ''url_original'') of
                         None \<Rightarrow> (resp 404 (Erro Codigo_nao_encontrado), t')
                       | Some (AttrOutro truthy) \<Rightarrow>
                           if \<not> truthy then (resp 404 (Erro Codigo_nao_encontrado), t')
                           else (resp 500 (Erro URL_original_invalida_no_DB), t')
                       | Some (AttrS url_original) \<Rightarrow>
                           if url_original = [] then (resp 404 (Erro Codigo_nao_encontrado), t')
                           else if \<not> url_valida L url_original
                           then (resp 500 (Erro URL_original_invalida_no_DB), t')
                           else (\<lparr>statusCode = 301,
                                  headers = [(str ''Location'', url_original)],
                                  body = Vazio\<rparr>, t')))))"

subsection \<open>handler\<close>

definition tem_codigo :: "evento \<Rightarrow> bool" where
  "tem_codigo ev =
     (case pathParameters ev of
        Valor ps \<Rightarrow>
          ps \<noteq> [] \<and> (case map_of ps (str ''codigo'') of None \<Rightarrow> False | Some c \<Rightarrow> c \<noteq> [])
      | _ \<Rightarrow> False)"

definition caminho :: "evento \<Rightarrow> pystr" where
  "caminho ev = (case path ev of None \<Rightarrow> [] | Some p \<Rightarrow> p)"

definition handler :: "pylib \<Rightarrow> evento \<Rightarrow> rng \<Rightarrow> tabela \<Rightarrow> resposta \<times> rng \<times> tabela" where
  "handler L ev r t =
     (if httpMethod ev = Some (str ''POST'') \<and> endswith (caminho ev) (str ''/encurtar'')
      then criar_encurtamento L ev r t
      else if httpMethod ev = Some (str ''GET'') \<and> tem_codigo ev
      then (case redirecionar L ev t of (rp, t') \<Rightarrow> (rp, r, t'))
      else (resp 400 (Erro Requisicao_invalida), r, t))"

subsection \<open>Concrete inputs\<close>

text \<open>
  Values for the closed examples below: a request for each of the two routes, an empty table
  and one that holds the code \<^verbatim>\<open>aaaaaa\<close>, a generator that always draws index 0 (every code
  is \<^verbatim>\<open>aaaaaa\<close>) and one that draws index 0 six times and index 1 from then on (the codes
  are \<^verbatim>\<open>aaaaaa\<close>, \<^verbatim>\<open>bbbbbb\<close>, \<^verbatim>\<open>bbbbbb\<close>, ...). The examples use ASCII URLs without
  brackets, for which \<open>urlparse\<close> consults neither parameter of \<open>pylib\<close>; \<open>lib0\<close> gives
  the parameters a value.
\<close>

definition lib0 :: pylib where
  "lib0 = \<lparr>ip_address = (\<lambda>h. None), normalize_NFKC = (\<lambda>s. s)\<rparr>"

definition post_encurtar :: "pystr \<Rightarrow> evento" where
  "post_encurtar b =
     \<lparr>httpMethod = Some (str ''POST''), path = Some (str ''/encurtar''),
      pathParameters = Nulo, ev_body = Some b\<rparr>"

definition get_codigo :: "pystr \<Rightarrow> evento" where
  "get_codigo c =
     \<lparr>httpMethod = Some (str ''GET''), path = Some (str ''/'' @ c),
      pathParameters = Valor [(str ''codigo'', c)], ev_body = None\<rparr>"

definition tabela_vazia :: tabela where
  "tabela_vazia = \<lparr>items = (\<lambda>k. None), chamadas = []\<rparr>"

definition item_de :: "pystr \<Rightarrow> pystr \<Rightarrow> item" where
  "item_de codigo url = [(str ''codigo'', AttrS codigo), (str ''url_original'', AttrS url)]"

definition tabela_aaaaaa :: tabela where
  "tabela_aaaaaa =
     \<lparr>items = (\<lambda>k. if k = str ''aaaaaa''
                     then Some (item_de (str ''aaaaaa'') (str ''https://example.org''))
                     else None),
      chamadas = []\<rparr>"

definition tabela_com :: "pystr \<Rightarrow> item \<Rightarrow> tabela" where
  "tabela_com k it = \<lparr>items = (\<lambda>k'. if k' = k then Some it else None), chamadas = []\<rparr>"

definition delete_x :: evento where
  "delete_x =
     \<lparr>httpMethod = Some (str ''DELETE''), path = Some (str ''/x''), pathParameters = Nulo,
      ev_body = None\<rparr>"

definition rng_zero :: rng where
  "rng_zero = (\<lambda>i. 0)"

definition rng_ab :: rng where
  "rng_ab = (\<lambda>i. if i < 6 then 0 else 1)"

definition rng_b :: rng where
  "rng_b = (\<lambda>i. 1)"

text \<open>
  The generator after \<open>n\<close> codes were drawn from it, the first \<open>n\<close> codes that it yields,
  and the one after them.
\<close>

fun saltar :: "rng \<Rightarrow> nat \<Rightarrow> rng" where
  "saltar r 0 = r"
| "saltar r (Suc n) = saltar (snd (gerar_codigo r)) n"

fun codigos :: "rng \<Rightarrow> nat \<Rightarrow> pystr list" where
  "codigos r 0 = []"
| "codigos r (Suc n) = fst (gerar_codigo r) # codigos (snd (gerar_codigo r)) n"

definition proximo :: "rng \<Rightarrow> nat \<Rightarrow> pystr" where
  "proximo r n = fst (gerar_codigo (saltar r n))"

section \<open>Evaluation and basic facts\<close>

text \<open>
  \<open>str\<close> is injective, so texts of literals are compared as literals. The two lists of
  definitions unfold the library models on a concrete text.
\<close>

lemma str_eq_iff: "str a = str b \<longleftrightarrow> a = b"
  by (simp add: str_def inj_map_eq_map inj_on_def)

lemma str_Nil_iff: "str a = [] \<longleftrightarrow> a = []"
  by (simp add: str_def)

lemma length_str: "length (str a) = length a"
  by (simp add: str_def)

lemmas json_eval = json_loads_def startswith_def skip_ws_def is_ws_def match_number_def is_digit_def
  BACKSLASH_def hex4_def hex_val_def is_hex_def low_surrogate_def int_max_str_digits_def
  match_integer_def match_frac_def match_exp_def int_digits_def str_def

lemmas url_eval = url_valida_def urlparse_def split_scheme_def splitnetloc_def scheme_chars_def
  strip_url_def ascii_isalpha_def ascii_lower_def checknetloc_def isascii_def partition_at_def
  check_bracketed_host_def check_brackets_def startswith_def str_def

lemma json_loads_Nil: "json_loads [] = Inl JSONDecodeError"
  by (simp add: json_eval)

lemma json_loads_empty_object: "json_loads (str ''{}'') = Inr (JObj [])"
  by (simp add: json_eval)

lemma length_gerar_codigo: "length (fst (gerar_codigo r)) = 6"
  by (simp add: gerar_codigo_def TAMANHO_CODIGO_def)

lemma gerar_codigo_not_Nil: "fst (gerar_codigo r) \<noteq> []"
  using length_gerar_codigo [of r] by auto

lemma put_item_cases:
  "put_item t k it = (res, t') \<Longrightarrow>
     (res = None \<and> items t k = None \<and> items t' = (items t)(k \<mapsto> it)
        \<and> chamadas t' = chamadas t @ [PutItem k])
   \<or> (res = Some (ClientError ConditionalCheckFailedException) \<and> items t k \<noteq> None
        \<and> items t' = items t \<and> chamadas t' = chamadas t @ [PutItem k])"
  by (auto simp: put_item_def split: if_splits)

lemma tentar_Inserido:
  "tentar ns xs u r t = (Inserido c, r', t') \<Longrightarrow>
     items t c = None \<and> items t' = (items t)(c \<mapsto> item_de c u) \<and> c \<noteq> []"
proof (induction xs arbitrary: r t)
  case Nil
  then show ?case by simp
next
  case (Cons x xs)
  obtain c1 r1 where g: "gerar_codigo r = (c1, r1)" by (cases "gerar_codigo r")
  obtain res t1 where p: "put_item t c1 (item_de c1 u) = (res, t1)"
    by (cases "put_item t c1 (item_de c1 u)")
  have ne: "c1 \<noteq> []" using gerar_codigo_not_Nil [of r] g by simp
  from put_item_cases [OF p] show ?case
  proof
    assume a: "res = None \<and> items t c1 = None \<and> items t1 = (items t)(c1 \<mapsto> item_de c1 u)
        \<and> chamadas t1 = chamadas t @ [PutItem c1]"
    with Cons.prems g p have "c = c1" "t' = t1" by (auto simp: item_de_def)
    with a ne show ?thesis by simp
  next
    assume a: "res = Some (ClientError ConditionalCheckFailedException) \<and> items t c1 \<noteq> None
        \<and> items t1 = items t \<and> chamadas t1 = chamadas t @ [PutItem c1]"
    with Cons.prems g p have "tentar ns xs u r1 t1 = (Inserido c, r', t')"
      by (auto simp: item_de_def split: if_splits)
    from Cons.IH [OF this] a show ?thesis by simp
  qed
qed

lemma tentar_frame:
  "tentar ns xs u r t = (res, r', t') \<Longrightarrow> items t k = Some it \<Longrightarrow> items t' k = Some it"
proof (induction xs arbitrary: r t)
  case Nil
  then show ?case by simp
next
  case (Cons x xs)
  obtain c1 r1 where g: "gerar_codigo r = (c1, r1)" by (cases "gerar_codigo r")
  obtain pr t1 where p: "put_item t c1 (item_de c1 u) = (pr, t1)"
    by (cases "put_item t c1 (item_de c1 u)")
  from put_item_cases [OF p] show ?case
  proof
    assume a: "pr = None \<and> items t c1 = None \<and> items t1 = (items t)(c1 \<mapsto> item_de c1 u)
        \<and> chamadas t1 = chamadas t @ [PutItem c1]"
    with Cons.prems g p have "t' = t1" by (auto simp: item_de_def)
    with a Cons.prems(2) show ?thesis by auto
  next
    assume a: "pr = Some (ClientError ConditionalCheckFailedException) \<and> items t c1 \<noteq> None
        \<and> items t1 = items t \<and> chamadas t1 = chamadas t @ [PutItem c1]"
    show ?thesis
    proof (cases "''ClientError'' \<in> set ns")
      case True
      with a Cons.prems g p have "tentar ns xs u r1 t1 = (res, r', t')"
        by (auto simp: item_de_def)
      from Cons.IH [OF this] a Cons.prems(2) show ?thesis by simp
    next
      case False
      with a Cons.prems g p have "t' = t1" by (auto simp: item_de_def)
      with a Cons.prems(2) show ?thesis by simp
    qed
  qed
qed

lemma criar_201:
  assumes "criar_encurtamento L ev r t = (rp, r', t')" and "statusCode rp = 201"
  shows "\<exists>kvs u c. json_loads (corpo_texto ev) = Inr (JObj kvs)
           \<and> dict_get kvs (str ''url'') = Some (JStr u) \<and> u \<noteq> [] \<and> url_valida L u
           \<and> tentar boto3_exceptions [0..<5] u r t = (Inserido c, r', t')
           \<and> rp = resp 201 (Encurtada c (str ''/'' @ c))"
  using assms
  by (auto simp: criar_encurtamento_def resp_def
      split: sum.splits json.splits option.splits if_splits prod.splits tentativa.splits)

lemma redirecionar_found:
  assumes "pathParameters ev = Valor ps" and "map_of ps (str ''codigo'') = Some c" and "c \<noteq> []"
      and "items t c = Some it" and "map_of it (str ''url_original'') = Some (AttrS u)"
      and "u \<noteq> []" and "url_valida L u"
  shows "redirecionar L ev t =
           (\<lparr>statusCode = 301, headers = [(str ''Location'', u)], body = Vazio\<rparr>,
            t\<lparr>chamadas := chamadas t @ [GetItem c]\<rparr>)"
  using assms by (simp add: redirecionar_def get_item_def)

lemma url_original_item_de: "map_of (item_de c u) (str ''url_original'') = Some (AttrS u)"
  by (simp add: item_de_def str_eq_iff)

lemma proximo_Suc: "proximo r (Suc n) = proximo (snd (gerar_codigo r)) n"
  by (simp add: proximo_def)

lemma proximo_0: "proximo r 0 = fst (gerar_codigo r)"
  by (simp add: proximo_def)

lemma tentar_esgota:
  assumes "''ClientError'' \<in> set ns"
      and "\<forall>c \<in> set (codigos r (length xs)). items t c \<noteq> None"
  shows "tentar ns xs u r t =
           (Esgotado, saltar r (length xs),
            t\<lparr>chamadas := chamadas t @ map PutItem (codigos r (length xs))\<rparr>)"
  using assms(2)
proof (induction xs arbitrary: r t)
  case Nil
  then show ?case by simp
next
  case (Cons x xs)
  obtain c1 r1 where g: "gerar_codigo r = (c1, r1)" by (cases "gerar_codigo r")
  let ?t1 = "t\<lparr>chamadas := chamadas t @ [PutItem c1]\<rparr>"
  from Cons.prems g obtain y where col: "items t c1 = Some y"
    and rest: "\<forall>c \<in> set (codigos r1 (length xs)). items ?t1 c \<noteq> None" by auto
  have "tentar ns (x # xs) u r t = tentar ns xs u r1 ?t1"
    using g col assms(1) by (simp add: put_item_def)
  also have "\<dots> = (Esgotado, saltar r1 (length xs),
      ?t1\<lparr>chamadas := chamadas ?t1 @ map PutItem (codigos r1 (length xs))\<rparr>)"
    by (rule Cons.IH [OF rest])
  finally show ?case using g by simp
qed

lemma tentar_retenta:
  assumes "''ClientError'' \<in> set ns"
      and "n < length xs"
      and "\<forall>c \<in> set (codigos r n). items t c \<noteq> None"
      and "items t (proximo r n) = None"
  shows "tentar ns xs u r t =
           (Inserido (proximo r n), saltar r (Suc n),
            t\<lparr>items := (items t)(proximo r n \<mapsto> item_de (proximo r n) u),
              chamadas := chamadas t @ map PutItem (codigos r n @ [proximo r n])\<rparr>)"
  using assms(2-4)
proof (induction n arbitrary: xs r t)
  case 0
  then obtain x xs' where xs: "xs = x # xs'" by (cases xs) auto
  obtain c1 r1 where g: "gerar_codigo r = (c1, r1)" by (cases "gerar_codigo r")
  with 0 xs show ?case by (simp add: put_item_def item_de_def proximo_0 fun_upd_def)
next
  case (Suc n)
  then obtain x xs' where xs: "xs = x # xs'" and len: "n < length xs'" by (cases xs) auto
  obtain c1 r1 where g: "gerar_codigo r = (c1, r1)" by (cases "gerar_codigo r")
  let ?t1 = "t\<lparr>chamadas := chamadas t @ [PutItem c1]\<rparr>"
  from Suc.prems g obtain y where col: "items t c1 = Some y"
    and rest: "\<forall>c \<in> set (codigos r1 n). items ?t1 c \<noteq> None"
    and fresh: "items ?t1 (proximo r1 n) = None" by (auto simp: proximo_Suc)
  have "tentar ns xs u r t = tentar ns xs' u r1 ?t1"
    using g col assms(1) xs by (simp add: put_item_def)
  also have "\<dots> = (Inserido (proximo r1 n), saltar r1 (Suc n),
        ?t1\<lparr>items := (items ?t1)(proximo r1 n \<mapsto> item_de (proximo r1 n) u),
           chamadas := chamadas ?t1 @ map PutItem (codigos r1 n @ [proximo r1 n])\<rparr>)"
    by (rule Suc.IH [OF len rest fresh])
  finally show ?case using g by (simp add: proximo_Suc fun_upd_def)
qed

lemma tentar_boto3:
  "tentar boto3_exceptions (x # xs) u r t =
     (if items t (fst (gerar_codigo r)) = None
      then (Inserido (fst (gerar_codigo r)), snd (gerar_codigo r),
            t\<lparr>items := (items t)(fst (gerar_codigo r) \<mapsto> item_de (fst (gerar_codigo r)) u),
              chamadas := chamadas t @ [PutItem (fst (gerar_codigo r))]\<rparr>)
      else (Levantou AttributeError, snd (gerar_codigo r),
            t\<lparr>chamadas := chamadas t @ [PutItem (fst (gerar_codigo r))]\<rparr>))"
  by (cases "gerar_codigo r") (simp add: put_item_def item_de_def boto3_exceptions_def)

lemma criar_url:
  assumes "json_loads (corpo_texto ev) = Inr (JObj kvs)"
      and "dict_get kvs (str ''url'') = Some (JStr u)"
  shows "criar_encurtamento L ev r t =
           (if u = [] \<or> \<not> url_valida L u then (resp 400 (Erro URL_invalida), r, t)
            else if items t (fst (gerar_codigo r)) = None
            then (resp 201 (Encurtada (fst (gerar_codigo r)) (str ''/'' @ fst (gerar_codigo r))),
                  snd (gerar_codigo r),
                  t\<lparr>items := (items t)(fst (gerar_codigo r) \<mapsto> item_de (fst (gerar_codigo r)) u),
                    chamadas := chamadas t @ [PutItem (fst (gerar_codigo r))]\<rparr>)
            else (resp 500 (Erro (Excecao AttributeError)), snd (gerar_codigo r),
                  t\<lparr>chamadas := chamadas t @ [PutItem (fst (gerar_codigo r))]\<rparr>))"
  using assms by (simp add: criar_encurtamento_def upt_rec [of 0] tentar_boto3 del: tentar.simps)

lemma str_append: "str a @ str b = str (a @ b)"
  by (simp add: str_def)

lemma json_example_com:
  "json_loads (str ''{\"url\": \"https://example.com\"}'') =
     Inr (JObj [(str ''url'', JStr (str ''https://example.com''))])"
  by (simp add: json_eval)

lemma json_example_not_a_url:
  "json_loads (str ''{\"url\": \"not-a-url\"}'') = Inr (JObj [(str ''url'', JStr (str ''not-a-url''))])"
  by (simp add: json_eval)

lemma json_example_ftp:
  "json_loads (str ''{\"url\": \"ftp://host/x\"}'') =
     Inr (JObj [(str ''url'', JStr (str ''ftp://host/x''))])"
  by (simp add: json_eval)

lemma json_example_no_host:
  "json_loads (str ''{\"url\": \"https://\"}'') = Inr (JObj [(str ''url'', JStr (str ''https://''))])"
  by (simp add: json_eval)

lemma json_example_not_json: "json_loads (str ''not json'') = Inl JSONDecodeError"
  by (simp add: json_eval)

lemma url_example_com: "url_valida L (str ''https://example.com'')"
  by (simp add: url_eval)

lemma url_example_not_a_url: "\<not> url_valida L (str ''not-a-url'')"
  by (simp add: url_eval)

lemma url_example_ftp: "\<not> url_valida L (str ''ftp://host/x'')"
  by (simp add: url_eval)

lemma url_example_no_host: "\<not> url_valida L (str ''https://'')"
  by (simp add: url_eval)

lemma gerar_codigo_rng_zero: "gerar_codigo rng_zero = (str ''aaaaaa'', rng_zero)"
  by (simp add: gerar_codigo_def rng_zero_def CARACTERES_def TAMANHO_CODIGO_def str_def upt_rec)

lemma gerar_codigo_rng_ab: "gerar_codigo rng_ab = (str ''aaaaaa'', rng_b)"
  by (simp add: gerar_codigo_def rng_ab_def rng_b_def CARACTERES_def TAMANHO_CODIGO_def str_def upt_rec)

lemma gerar_codigo_rng_b: "gerar_codigo rng_b = (str ''bbbbbb'', rng_b)"
  by (simp add: gerar_codigo_def rng_b_def CARACTERES_def TAMANHO_CODIGO_def str_def upt_rec)

lemma dict_get_url: "dict_get [(str ''url'', v)] (str ''url'') = Some v"
  by (simp add: dict_get_def)

lemma corpo_texto_post: "b \<noteq> [] \<Longrightarrow> corpo_texto (post_encurtar b) = b"
  by (simp add: corpo_texto_def post_encurtar_def)

lemma criar_example_com:
  "criar_encurtamento L (post_encurtar (str ''{\"url\": \"https://example.com\"}'')) r t =
     (if items t (fst (gerar_codigo r)) = None
      then (resp 201 (Encurtada (fst (gerar_codigo r)) (str ''/'' @ fst (gerar_codigo r))),
            snd (gerar_codigo r),
            t\<lparr>items := (items t)(fst (gerar_codigo r) \<mapsto>
                    item_de (fst (gerar_codigo r)) (str ''https://example.com'')),
              chamadas := chamadas t @ [PutItem (fst (gerar_codigo r))]\<rparr>)
      else (resp 500 (Erro (Excecao AttributeError)), snd (gerar_codigo r),
            t\<lparr>chamadas := chamadas t @ [PutItem (fst (gerar_codigo r))]\<rparr>))"
proof -
  have "criar_encurtamento L (post_encurtar (str ''{\"url\": \"https://example.com\"}'')) r t =
      (if str ''https://example.com'' = [] \<or> \<not> url_valida L (str ''https://example.com'')
       then (resp 400 (Erro URL_invalida), r, t)
       else if items t (fst (gerar_codigo r)) = None
       then (resp 201 (Encurtada (fst (gerar_codigo r)) (str ''/'' @ fst (gerar_codigo r))),
             snd (gerar_codigo r),
             t\<lparr>items := (items t)(fst (gerar_codigo r) \<mapsto>
                     item_de (fst (gerar_codigo r)) (str ''https://example.com'')),
               chamadas := chamadas t @ [PutItem (fst (gerar_codigo r))]\<rparr>)
       else (resp 500 (Erro (Excecao AttributeError)), snd (gerar_codigo r),
             t\<lparr>chamadas := chamadas t @ [PutItem (fst (gerar_codigo r))]\<rparr>))"
    by (rule criar_url [where kvs = "[(str ''url'', JStr (str ''https://example.com''))]"])
      (simp_all add: corpo_texto_post str_Nil_iff json_example_com dict_get_url)
  then show ?thesis by (simp add: url_example_com str_Nil_iff)
qed

lemma criar_url_recusada:
  assumes "b \<noteq> []" and "json_loads b = Inr (JObj [(str ''url'', JStr u)])"
      and "\<not> url_valida L u"
  shows "criar_encurtamento L (post_encurtar b) r t = (resp 400 (Erro URL_invalida), r, t)"
  using assms by (simp add: criar_encurtamento_def corpo_texto_post dict_get_url)

lemma tem_codigo_iff:
  "tem_codigo ev \<longleftrightarrow>
     (\<exists>ps c. pathParameters ev = Valor ps \<and> map_of ps (str ''codigo'') = Some c \<and> c \<noteq> [])"
  by (auto simp: tem_codigo_def split: campo.splits option.splits)

lemma criar_frame:
  assumes "criar_encurtamento L ev r t = (rp, r', t')" and "items t k = Some it"
  shows "items t' k = Some it"
  using assms
  by (auto simp: criar_encurtamento_def
      split: sum.splits json.splits option.splits if_splits prod.splits tentativa.splits
      dest: tentar_frame)

lemma tentar_changes:
  "tentar ns xs u r t = (res, r', t') \<Longrightarrow> items t' k \<noteq> items t k \<Longrightarrow>
     res = Inserido k \<and> items t k = None"
proof (induction xs arbitrary: r t)
  case Nil
  then show ?case by simp
next
  case (Cons x xs)
  obtain c1 r1 where g: "gerar_codigo r = (c1, r1)" by (cases "gerar_codigo r")
  obtain pr t1 where p: "put_item t c1 (item_de c1 u) = (pr, t1)"
    by (cases "put_item t c1 (item_de c1 u)")
  from put_item_cases [OF p] show ?case
  proof
    assume a: "pr = None \<and> items t c1 = None \<and> items t1 = (items t)(c1 \<mapsto> item_de c1 u)
        \<and> chamadas t1 = chamadas t @ [PutItem c1]"
    with Cons.prems g p have "t' = t1" "res = Inserido c1" by (auto simp: item_de_def)
    with a Cons.prems(2) show ?thesis by (auto split: if_splits)
  next
    assume a: "pr = Some (ClientError ConditionalCheckFailedException) \<and> items t c1 \<noteq> None
        \<and> items t1 = items t \<and> chamadas t1 = chamadas t @ [PutItem c1]"
    show ?thesis
    proof (cases "''ClientError'' \<in> set ns")
      case True
      with a Cons.prems g p have "tentar ns xs u r1 t1 = (res, r', t')"
        by (auto simp: item_de_def)
      from Cons.IH [OF this] a Cons.prems(2) show ?thesis by simp
    next
      case False
      with a Cons.prems g p have "t' = t1" by (auto simp: item_de_def)
      with a Cons.prems(2) show ?thesis by simp
    qed
  qed
qed

lemma criar_changes:
  assumes "criar_encurtamento L ev r t = (rp, r', t')" and "items t' k \<noteq> items t k"
  shows "items t k = None
     \<and> (\<exists>u. items t' k = Some (item_de k u) \<and> u \<noteq> [] \<and> url_valida L u \<and> k \<noteq> [])"
proof -
  from assms obtain kvs u res where
    u: "u \<noteq> []" "url_valida L u" and tr: "tentar boto3_exceptions [0..<5] u r t = (res, r', t')"
    by (auto simp: criar_encurtamento_def
      split: sum.splits json.splits option.splits if_splits prod.splits tentativa.splits)
  from tentar_changes [OF tr assms(2)] have "res = Inserido k" "items t k = None" by simp_all
  with tentar_Inserido [of boto3_exceptions "[0..<5]" u r t k r' t'] tr
  have "items t' k = Some (item_de k u)" "k \<noteq> []" by simp_all
  with u \<open>items t k = None\<close> show ?thesis by blast
qed

lemma redirecionar_items: "items (snd (redirecionar L ev t)) = items t"
  by (simp add: redirecionar_def get_item_def
      split: campo.splits option.splits attr.splits)

lemma escritas_redirecionar: "escritas (snd (redirecionar L ev t)) = escritas t"
  by (simp add: redirecionar_def get_item_def escritas_def
      split: campo.splits option.splits attr.splits)

lemma tabela_ok_key: "tabela_ok t \<Longrightarrow> items t c = Some it \<Longrightarrow> c \<noteq> []"
  by (auto simp: tabela_ok_def)

section \<open>The models of the library\<close>

text \<open>
  The bound on nested calls that \<open>json_loads\<close> gives the scanner is never reached: no text
  makes it answer \<open>RecursionError\<close>. (The recursion limit of the interpreter itself is not
  modelled.) Every successful call of the scanner consumes at least one character.
\<close>

lemma length_skip_ws: "length (skip_ws s) \<le> length s"
  by (simp add: skip_ws_def length_dropWhile_le)

lemma scanstring_step:
  assumes "scanstring acc (c # cs) = Inr (v, rest)"
  shows "rest = cs \<or> (\<exists>acc' s'. length s' \<le> length cs \<and> scanstring acc' s' = Inr (v, rest))"
proof (cases "c = ch (CHR 0x22)")
  case True
  with assms show ?thesis by simp
next
  case q: False
  show ?thesis
  proof (cases "c = ch (CHR 0x5C)")
    case False
    with q assms have "scanstring (acc @ [c]) cs = Inr (v, rest)"
      by (simp split: if_splits)
    then show ?thesis by blast
  next
    case True
    show ?thesis
    proof (cases cs)
      case Nil
      with True q assms show ?thesis by simp
    next
      case (Cons e cs1)
      show ?thesis
      proof (cases "e = ch CHR ''u''")
        case False
        with True q assms Cons obtain x where "scanstring (acc @ [x]) cs1 = Inr (v, rest)"
          by (auto split: option.splits)
        moreover have "length cs1 \<le> length cs" using Cons by simp
        ultimately show ?thesis by blast
      next
        case u: True
        from True q assms Cons u obtain h1 h2 h3 h4 cs2 uni where
          cs1: "cs1 = h1 # h2 # h3 # h4 # cs2" and "hex4 h1 h2 h3 h4 = Some uni"
          by (auto split: list.splits option.splits)
        with True q assms Cons u have
          "(\<exists>a. scanstring a (drop 6 cs2) = Inr (v, rest)) \<or> (\<exists>a. scanstring a cs2 = Inr (v, rest))"
          by (auto split: if_splits option.splits)
        moreover have "length (drop 6 cs2) \<le> length cs" "length cs2 \<le> length cs"
          using Cons cs1 by simp_all
        ultimately show ?thesis by blast
      qed
    qed
  qed
qed

lemma scanstring_shorter: "scanstring acc s = Inr (v, rest) \<Longrightarrow> length rest < length s"
proof (induction "length s" arbitrary: acc s rule: less_induct)
  case less
  show ?case
  proof (cases s)
    case Nil
    with less.prems show ?thesis by simp
  next
    case (Cons c cs)
    from scanstring_step [OF less.prems [unfolded Cons]] show ?thesis
    proof
      assume "rest = cs"
      with Cons show ?thesis by simp
    next
      assume "\<exists>acc' s'. length s' \<le> length cs \<and> scanstring acc' s' = Inr (v, rest)"
      then obtain acc' s' where s': "length s' \<le> length cs" "scanstring acc' s' = Inr (v, rest)"
        by blast
      from s'(1) Cons have "length s' < length s" by simp
      from less.hyps [OF this s'(2)] s'(1) Cons show ?thesis by simp
    qed
  qed
qed

lemma scanstring_error_step:
  assumes "scanstring acc (c # cs) = Inl e"
  shows "e = JSONDecodeError \<or> (\<exists>acc' s'. length s' \<le> length cs \<and> scanstring acc' s' = Inl e)"
proof (cases "c = ch (CHR 0x22)")
  case True
  with assms show ?thesis by simp
next
  case q: False
  show ?thesis
  proof (cases "c = ch (CHR 0x5C)")
    case False
    with q assms have "e = JSONDecodeError \<or> scanstring (acc @ [c]) cs = Inl e"
      by (simp split: if_splits)
    then show ?thesis by blast
  next
    case True
    show ?thesis
    proof (cases cs)
      case Nil
      with True q assms show ?thesis by simp
    next
      case (Cons x cs1)
      show ?thesis
      proof (cases "x = ch CHR ''u''")
        case False
        with True q assms Cons have
          "e = JSONDecodeError \<or> (\<exists>a. scanstring a cs1 = Inl e)"
          by (auto split: option.splits)
        moreover have "length cs1 \<le> length cs" using Cons by simp
        ultimately show ?thesis by blast
      next
        case u: True
        show ?thesis
        proof (cases "\<exists>h1 h2 h3 h4 cs2 uni. cs1 = h1 # h2 # h3 # h4 # cs2
            \<and> hex4 h1 h2 h3 h4 = Some uni")
          case False
          with True q assms Cons u have "e = JSONDecodeError"
            by (auto split: list.splits option.splits)
          then show ?thesis by simp
        next
          case True
          then obtain h1 h2 h3 h4 cs2 uni where
            cs1: "cs1 = h1 # h2 # h3 # h4 # cs2" and "hex4 h1 h2 h3 h4 = Some uni"
            by blast
          with \<open>c = ch (CHR 0x5C)\<close> q assms Cons u have
            "(\<exists>a. scanstring a (drop 6 cs2) = Inl e) \<or> (\<exists>a. scanstring a cs2 = Inl e)"
            by (auto split: if_splits option.splits)
          moreover have "length (drop 6 cs2) \<le> length cs" "length cs2 \<le> length cs"
            using Cons cs1 by simp_all
          ultimately show ?thesis by blast
        qed
      qed
    qed
  qed
qed

lemma scanstring_error: "scanstring acc s = Inl e \<Longrightarrow> e = JSONDecodeError"
proof (induction "length s" arbitrary: acc s rule: less_induct)
  case less
  show ?case
  proof (cases s)
    case Nil
    with less.prems show ?thesis by simp
  next
    case (Cons c cs)
    from scanstring_error_step [OF less.prems [unfolded Cons]] show ?thesis
    proof
      assume "e = JSONDecodeError"
      then show ?thesis .
    next
      assume "\<exists>acc' s'. length s' \<le> length cs \<and> scanstring acc' s' = Inl e"
      then obtain acc' s' where s': "length s' \<le> length cs" "scanstring acc' s' = Inl e"
        by blast
      from s'(1) Cons have "length s' < length s" by simp
      from less.hyps [OF this s'(2)] show ?thesis .
    qed
  qed
qed

lemma skip_ws_Cons: "skip_ws s = d # ds \<Longrightarrow> length ds < length s"
  using length_skip_ws [of s] by simp

lemma match_number_not_Nil: "match_number s = Some (i, f, e) \<Longrightarrow> i \<noteq> []"
  by (auto simp: match_number_def match_integer_def int_digits_def
      split: option.splits list.splits if_splits)

lemma drop_shorter: "s \<noteq> [] \<Longrightarrow> 0 < k \<Longrightarrow> length (drop k s) < length s"
  by (cases s) auto

lemma scan_once_Suc_shorter:
  assumes arr: "\<And>vals s v rest. JSONArray n vals s = Inr (v, rest) \<Longrightarrow> length rest < length s"
      and obj: "\<And>pairs s v rest. JSONObject n pairs s = Inr (v, rest) \<Longrightarrow> length rest < length s"
      and "scan_once (Suc n) s = Inr (v, rest)"
  shows "length rest < length s"
proof (cases s)
  case Nil
  with assms(3) show ?thesis by simp
next
  case (Cons c cs)
  have ne: "s \<noteq> []" using Cons by simp
  consider (str) "c = ch (CHR 0x22)"
    | (obj) "c \<noteq> ch (CHR 0x22)" "c = ch CHR ''{''"
    | (arr) "c \<noteq> ch (CHR 0x22)" "c \<noteq> ch CHR ''{''" "c = ch CHR ''[''"
    | (other) "c \<noteq> ch (CHR 0x22)" "c \<noteq> ch CHR ''{''" "c \<noteq> ch CHR ''[''"
    by blast
  then show ?thesis
  proof cases
    case str
    with assms(3) Cons obtain w where "scanstring [] cs = Inr (w, rest)"
      by (auto split: sum.splits)
    from scanstring_shorter [OF this] Cons show ?thesis by simp
  next
    case obj
    with assms(3) Cons obtain d ds where sk: "skip_ws cs = d # ds"
      by (auto split: list.splits)
    from skip_ws_Cons [OF sk] have l: "length ds < length cs" .
    from obj assms(3) Cons sk have "rest = ds \<or> JSONObject n [] ds = Inr (v, rest)"
      by (auto split: if_splits)
    then show ?thesis
    proof
      assume "rest = ds"
      with l Cons show ?thesis by simp
    next
      assume "JSONObject n [] ds = Inr (v, rest)"
      from assms(2) [OF this] l Cons show ?thesis by simp
    qed
  next
    case arr
    with assms(3) Cons have
      "rest = drop 1 (skip_ws cs) \<or> JSONArray n [] (skip_ws cs) = Inr (v, rest)"
      by (auto split: if_splits)
    then show ?thesis
    proof
      assume "rest = drop 1 (skip_ws cs)"
      with length_skip_ws [of cs] Cons show ?thesis by simp
    next
      assume "JSONArray n [] (skip_ws cs) = Inr (v, rest)"
      from assms(1) [OF this] length_skip_ws [of cs] Cons show ?thesis by simp
    qed
  next
    case other
    with assms(3) Cons have
      "(\<exists>k. 0 < k \<and> rest = drop k s)
       \<or> (\<exists>i f e. match_number s = Some (i, f, e) \<and> rest = drop (length i + length f + length e) s)"
      by (auto split: if_splits option.splits)
    then show ?thesis
    proof
      assume "\<exists>k. 0 < k \<and> rest = drop k s"
      with ne show ?thesis by (auto intro: drop_shorter)
    next
      assume "\<exists>i f e. match_number s = Some (i, f, e)
          \<and> rest = drop (length i + length f + length e) s"
      then obtain i f e where m: "match_number s = Some (i, f, e)"
        and r: "rest = drop (length i + length f + length e) s" by blast
      from match_number_not_Nil [OF m] have "0 < length i + length f + length e" by simp
      with ne r show ?thesis by (auto intro: drop_shorter)
    qed
  qed
qed

lemma JSONArray_Suc_cases:
  assumes "JSONArray (Suc n) vals s = Inr (v, rest)"
  obtains w r1 d ds where "scan_once n s = Inr (w, r1)" "skip_ws r1 = d # ds"
    "rest = ds \<or> JSONArray n (vals @ [w]) (skip_ws ds) = Inr (v, rest)"
  using assms by (auto split: sum.splits list.splits if_splits)

lemma JSONArray_Suc_shorter:
  assumes sc: "\<And>s v rest. scan_once n s = Inr (v, rest) \<Longrightarrow> length rest < length s"
      and arr: "\<And>vals s v rest. JSONArray n vals s = Inr (v, rest) \<Longrightarrow> length rest < length s"
      and "JSONArray (Suc n) vals s = Inr (v, rest)"
  shows "length rest < length s"
proof -
  from assms(3) obtain w r1 d ds where
    a: "scan_once n s = Inr (w, r1)" and b: "skip_ws r1 = d # ds"
    and c: "rest = ds \<or> JSONArray n (vals @ [w]) (skip_ws ds) = Inr (v, rest)"
    by (rule JSONArray_Suc_cases)
  from sc [OF a] skip_ws_Cons [OF b] have l: "length ds < length s" by simp
  from c show ?thesis
  proof
    assume "rest = ds"
    with l show ?thesis by simp
  next
    assume "JSONArray n (vals @ [w]) (skip_ws ds) = Inr (v, rest)"
    from arr [OF this] length_skip_ws [of ds] l show ?thesis by simp
  qed
qed

lemma JSONObject_Suc_cases:
  assumes "JSONObject (Suc n) pairs s = Inr (v, rest)"
  obtains key r1 c cs w r2 d ds where "scanstring [] s = Inr (key, r1)" "skip_ws r1 = c # cs"
    "scan_once n (skip_ws cs) = Inr (w, r2)" "skip_ws r2 = d # ds"
    "rest = ds \<or> (\<exists>q qs. skip_ws ds = q # qs
        \<and> JSONObject n (pairs @ [(key, w)]) qs = Inr (v, rest))"
  using assms by (auto split: sum.splits list.splits if_splits)

lemma JSONObject_Suc_shorter:
  assumes sc: "\<And>s v rest. scan_once n s = Inr (v, rest) \<Longrightarrow> length rest < length s"
      and obj: "\<And>pairs s v rest. JSONObject n pairs s = Inr (v, rest) \<Longrightarrow> length rest < length s"
      and "JSONObject (Suc n) pairs s = Inr (v, rest)"
  shows "length rest < length s"
proof -
  from assms(3) obtain key r1 c cs w r2 d ds where
    a: "scanstring [] s = Inr (key, r1)" and b: "skip_ws r1 = c # cs"
    and c: "scan_once n (skip_ws cs) = Inr (w, r2)" and d: "skip_ws r2 = d # ds"
    and e: "rest = ds \<or> (\<exists>q qs. skip_ws ds = q # qs
        \<and> JSONObject n (pairs @ [(key, w)]) qs = Inr (v, rest))"
    by (rule JSONObject_Suc_cases)
  from scanstring_shorter [OF a] skip_ws_Cons [OF b] sc [OF c] length_skip_ws [of cs]
    skip_ws_Cons [OF d]
  have l: "length ds < length s" by simp
  from e show ?thesis
  proof
    assume "rest = ds"
    with l show ?thesis by simp
  next
    assume "\<exists>q qs. skip_ws ds = q # qs \<and> JSONObject n (pairs @ [(key, w)]) qs = Inr (v, rest)"
    then obtain q qs where q: "skip_ws ds = q # qs"
      and o: "JSONObject n (pairs @ [(key, w)]) qs = Inr (v, rest)" by blast
    from obj [OF o] skip_ws_Cons [OF q] l show ?thesis by simp
  qed
qed

lemma scan_shorter_all:
  "(\<forall>s v rest. scan_once n s = Inr (v, rest) \<longrightarrow> length rest < length s)
   \<and> (\<forall>vals s v rest. JSONArray n vals s = Inr (v, rest) \<longrightarrow> length rest < length s)
   \<and> (\<forall>pairs s v rest. JSONObject n pairs s = Inr (v, rest) \<longrightarrow> length rest < length s)"
proof (induction n)
  case 0
  show ?case by simp
next
  case (Suc n)
  then have sc: "\<And>s v rest. scan_once n s = Inr (v, rest) \<Longrightarrow> length rest < length s"
    and arr: "\<And>vals s v rest. JSONArray n vals s = Inr (v, rest) \<Longrightarrow> length rest < length s"
    and obj: "\<And>pairs s v rest. JSONObject n pairs s = Inr (v, rest) \<Longrightarrow> length rest < length s"
    by blast+
  show ?case
  proof (intro conjI allI impI)
    fix s v rest assume a: "scan_once (Suc n) s = Inr (v, rest)"
    show "length rest < length s"
      by (rule scan_once_Suc_shorter [OF _ _ a]) (erule arr, erule obj)
  next
    fix vals s v rest assume a: "JSONArray (Suc n) vals s = Inr (v, rest)"
    show "length rest < length s"
      by (rule JSONArray_Suc_shorter [OF _ _ a]) (erule sc, erule arr)
  next
    fix pairs s v rest assume a: "JSONObject (Suc n) pairs s = Inr (v, rest)"
    show "length rest < length s"
      by (rule JSONObject_Suc_shorter [OF _ _ a]) (erule sc, erule obj)
  qed
qed

lemma scan_once_shorter: "scan_once n s = Inr (v, rest) \<Longrightarrow> length rest < length s"
  using scan_shorter_all [of n] by blast

lemma scan_once_Suc_RecursionError:
  assumes "scan_once (Suc n) s = Inl RecursionError"
  obtains c cs d ds where "s = c # cs" "skip_ws cs = d # ds"
      "JSONObject n [] ds = Inl RecursionError"
    | c cs where "s = c # cs" "JSONArray n [] (skip_ws cs) = Inl RecursionError"
proof (cases s)
  case Nil
  with assms show ?thesis by simp
next
  case (Cons c cs)
  consider (str) "c = ch (CHR 0x22)"
    | (obj) "c \<noteq> ch (CHR 0x22)" "c = ch CHR ''{''"
    | (arr) "c \<noteq> ch (CHR 0x22)" "c \<noteq> ch CHR ''{''" "c = ch CHR ''[''"
    | (other) "c \<noteq> ch (CHR 0x22)" "c \<noteq> ch CHR ''{''" "c \<noteq> ch CHR ''[''"
    by blast
  then show ?thesis
  proof cases
    case str
    with assms Cons have "scanstring [] cs = Inl RecursionError"
      by (auto split: sum.splits)
    from scanstring_error [OF this] show ?thesis by simp
  next
    case obj
    with assms Cons obtain d ds where "skip_ws cs = d # ds" "JSONObject n [] ds = Inl RecursionError"
      by (auto split: list.splits if_splits)
    with Cons that(1) show ?thesis by blast
  next
    case arr
    with assms Cons have "JSONArray n [] (skip_ws cs) = Inl RecursionError"
      by (auto split: if_splits)
    with Cons that(2) show ?thesis by blast
  next
    case other
    with assms Cons show ?thesis
      by (auto split: if_splits option.splits)
  qed
qed

lemma JSONArray_Suc_RecursionError:
  assumes "JSONArray (Suc n) vals s = Inl RecursionError"
  obtains "scan_once n s = Inl RecursionError"
    | w r1 d ds where "scan_once n s = Inr (w, r1)" "skip_ws r1 = d # ds"
        "JSONArray n (vals @ [w]) (skip_ws ds) = Inl RecursionError"
  using assms by (auto split: sum.splits list.splits if_splits)

lemma JSONObject_Suc_RecursionError:
  assumes "JSONObject (Suc n) pairs s = Inl RecursionError"
  obtains key r1 c cs where "scanstring [] s = Inr (key, r1)" "skip_ws r1 = c # cs"
        "scan_once n (skip_ws cs) = Inl RecursionError"
    | key r1 c cs w r2 d ds q qs where "scanstring [] s = Inr (key, r1)" "skip_ws r1 = c # cs"
        "scan_once n (skip_ws cs) = Inr (w, r2)" "skip_ws r2 = d # ds" "skip_ws ds = q # qs"
        "JSONObject n (pairs @ [(key, w)]) qs = Inl RecursionError"
proof (cases "scanstring [] s")
  case (Inl e)
  with assms have "scanstring [] s = Inl RecursionError" by simp
  from scanstring_error [OF this] show ?thesis by simp
next
  case (Inr p)
  then obtain key r1 where k: "scanstring [] s = Inr (key, r1)" by (cases p) simp
  with assms obtain c cs where c: "skip_ws r1 = c # cs"
    by (auto split: list.splits)
  with assms k have v: "(case scan_once n (skip_ws cs) of
        Inl e \<Rightarrow> Inl e
      | Inr (w, rest') \<Rightarrow>
          (case skip_ws rest' of
             [] \<Rightarrow> Inl JSONDecodeError
           | d # ds \<Rightarrow>
               if d = ch CHR ''}'' then Inr (JObj (pairs @ [(key, w)]), ds)
               else if d = ch CHR '','' then
                 (case skip_ws ds of
                    [] \<Rightarrow> Inl JSONDecodeError
                  | q # qs \<Rightarrow>
                      if q = ch (CHR 0x22) then JSONObject n (pairs @ [(key, w)]) qs
                      else Inl JSONDecodeError)
               else Inl JSONDecodeError)) = Inl RecursionError"
    by (auto split: if_splits)
  show ?thesis
  proof (cases "scan_once n (skip_ws cs)")
    case (Inl e)
    with v have "scan_once n (skip_ws cs) = Inl RecursionError" by simp
    with k c that(1) show ?thesis by blast
  next
    case (Inr p2)
    then obtain w r2 where w: "scan_once n (skip_ws cs) = Inr (w, r2)" by (cases p2) simp
    with v obtain d ds q qs where "skip_ws r2 = d # ds" "skip_ws ds = q # qs"
      "JSONObject n (pairs @ [(key, w)]) qs = Inl RecursionError"
      by (auto split: list.splits if_splits)
    with k c w that(2) show ?thesis by blast
  qed
qed

lemma scan_fuel_all:
  "(\<forall>s. 2 * length s < n \<longrightarrow> scan_once n s \<noteq> Inl RecursionError)
   \<and> (\<forall>vals s. 2 * length s + 1 < n \<longrightarrow> JSONArray n vals s \<noteq> Inl RecursionError)
   \<and> (\<forall>pairs s. 2 * length s + 1 < n \<longrightarrow> JSONObject n pairs s \<noteq> Inl RecursionError)"
proof (induction n)
  case 0
  show ?case by simp
next
  case (Suc n)
  then have sc: "\<And>s. 2 * length s < n \<Longrightarrow> scan_once n s \<noteq> Inl RecursionError"
    and arr: "\<And>vals s. 2 * length s + 1 < n \<Longrightarrow> JSONArray n vals s \<noteq> Inl RecursionError"
    and obj: "\<And>pairs s. 2 * length s + 1 < n \<Longrightarrow> JSONObject n pairs s \<noteq> Inl RecursionError"
    by blast+
  show ?case
  proof (intro conjI allI impI notI)
    fix s assume b: "2 * length s < Suc n" and e: "scan_once (Suc n) s = Inl RecursionError"
    from e show False
    proof (cases rule: scan_once_Suc_RecursionError)
      case (1 c cs d ds)
      from skip_ws_Cons [OF 1(2)] 1(1) b have "2 * length ds + 1 < n" by simp
      from obj [OF this] 1(3) show False by simp
    next
      case (2 c cs)
      from length_skip_ws [of cs] 2(1) b have "2 * length (skip_ws cs) + 1 < n" by simp
      from arr [OF this] 2(2) show False by simp
    qed
  next
    fix vals s assume b: "2 * length s + 1 < Suc n"
      and e: "JSONArray (Suc n) vals s = Inl RecursionError"
    from e show False
    proof (cases rule: JSONArray_Suc_RecursionError)
      case 1
      from b have "2 * length s < n" by simp
      from sc [OF this] 1 show False by simp
    next
      case (2 w r1 d ds)
      from scan_once_shorter [OF 2(1)] skip_ws_Cons [OF 2(2)] length_skip_ws [of ds] b
      have "2 * length (skip_ws ds) + 1 < n" by simp
      from arr [OF this] 2(3) show False by simp
    qed
  next
    fix pairs s assume b: "2 * length s + 1 < Suc n"
      and e: "JSONObject (Suc n) pairs s = Inl RecursionError"
    from e show False
    proof (cases rule: JSONObject_Suc_RecursionError)
      case (1 key r1 c cs)
      from scanstring_shorter [OF 1(1)] skip_ws_Cons [OF 1(2)] length_skip_ws [of cs] b
      have "2 * length (skip_ws cs) < n" by simp
      from sc [OF this] 1(3) show False by simp
    next
      case (2 key r1 c cs w r2 d ds q qs)
      from scanstring_shorter [OF 2(1)] skip_ws_Cons [OF 2(2)] length_skip_ws [of cs]
        scan_once_shorter [OF 2(3)] skip_ws_Cons [OF 2(4)] skip_ws_Cons [OF 2(5)] b
      have "2 * length qs + 1 < n" by simp
      from obj [OF this] 2(6) show False by simp
    qed
  qed
qed

theorem json_loads_fuel: "json_loads s \<noteq> Inl RecursionError"
proof
  assume e: "json_loads s = Inl RecursionError"
  have "2 * length (skip_ws s) < Suc (Suc (length s + length s))"
    using length_skip_ws [of s] by simp
  with scan_fuel_all [of "Suc (Suc (length s + length s))"]
  have "scan_once (Suc (Suc (length s + length s))) (skip_ws s) \<noteq> Inl RecursionError"
    by blast
  with e show False
    by (auto simp: json_loads_def split: if_splits sum.splits prod.splits)
qed

text \<open>
  On a URL that is ASCII and has no bracket, \<open>urlparse\<close> consults neither parameter of
  \<open>pylib\<close>.
\<close>

lemma set_split_scheme: "set (snd (split_scheme u)) \<subseteq> set u"
  by (auto simp: split_scheme_def split: list.splits dest: in_set_dropD)

lemma set_strip_url: "set (strip_url u) \<subseteq> set u"
  by (auto simp: strip_url_def dest: set_dropWhileD)

lemma set_splitnetloc: "set (splitnetloc u) \<subseteq> set u"
  by (auto simp: splitnetloc_def dest: set_takeWhileD in_set_dropD)

theorem urlparse_ascii:
  assumes "isascii url" and "ch CHR ''['' \<notin> set url" and "ch CHR '']'' \<notin> set url"
  shows "urlparse L url = urlparse L' url"
proof -
  obtain sch rest where sp: "split_scheme (strip_url url) = (sch, rest)"
    by (cases "split_scheme (strip_url url)")
  have "set rest \<subseteq> set url"
    using set_split_scheme [of "strip_url url"] set_strip_url [of url] sp by auto
  with set_splitnetloc [of rest] have sub: "set (splitnetloc rest) \<subseteq> set url" by blast
  with assms(2,3) have "check_brackets L (splitnetloc rest) = None"
    "check_brackets L' (splitnetloc rest) = None"
    by (auto simp: check_brackets_def)
  moreover from sub assms(1) have "checknetloc L (splitnetloc rest) = None"
    "checknetloc L' (splitnetloc rest) = None"
    by (auto simp: checknetloc_def isascii_def)
  ultimately show ?thesis using sp by (simp add: urlparse_def)
qed

section \<open>Invariants of the program\<close>

text \<open>
  Every generated code is six characters of the alphabet, and \<open>criar_encurtamento\<close> keeps
  the table free of an item under the empty key.
\<close>

lemma gerar_codigo_alphabet: "set (fst (gerar_codigo r)) \<subseteq> set CARACTERES"
  by (auto simp: gerar_codigo_def CARACTERES_def length_str)

lemma criar_tabela_ok:
  assumes "criar_encurtamento L ev r t = (rp, r', t')" and "tabela_ok t"
  shows "tabela_ok t'"
proof (rule ccontr)
  assume "\<not> tabela_ok t'"
  with assms(2) have "items t' [] \<noteq> items t []" by (simp add: tabela_ok_def)
  from criar_changes [OF assms(1) this] show False by blast
qed

section \<open>The claims\<close>

text \<open>
  C1 (round trip). When \<open>criar_encurtamento\<close> is called with a body that decodes to an
  object whose \<^verbatim>\<open>url\<close> is the string \<open>u\<close> and answers 201 with the code \<open>c\<close>, then
  \<open>redirecionar\<close> for \<open>c\<close> on the resulting table answers 301 with the header
  \<^verbatim>\<open>Location\<close> equal to \<open>u\<close> and the empty body.
\<close>

theorem round_trip:
  assumes "ev_body ev = Some b"
      and "json_loads b = Inr (JObj kvs)"
      and "dict_get kvs (str ''url'') = Some (JStr u)"
      and "criar_encurtamento L ev r t = (rp, r', t')"
      and "statusCode rp = 201"
      and "body rp = Encurtada c s"
      and "pathParameters ev' = Valor ps"
      and "map_of ps (str ''codigo'') = Some c"
  shows "fst (redirecionar L ev' t') =
           \<lparr>statusCode = 301, headers = [(str ''Location'', u)], body = Vazio\<rparr>"
proof -
  have "b \<noteq> []" using assms(2) json_loads_Nil by auto
  with assms(1) have body_text: "corpo_texto ev = b" by (simp add: corpo_texto_def)
  from criar_201 [OF assms(4,5)] obtain kvs' u' c' where
    k: "json_loads (corpo_texto ev) = Inr (JObj kvs')"
       "dict_get kvs' (str ''url'') = Some (JStr u')" "u' \<noteq> []" "url_valida L u'"
       "tentar boto3_exceptions [0..<5] u' r t = (Inserido c', r', t')"
       "rp = resp 201 (Encurtada c' (str ''/'' @ c'))"
    by blast
  from k(1,2) body_text assms(2,3) have "u' = u" by simp
  from k(6) assms(6) have "c' = c" by (simp add: resp_def)
  from tentar_Inserido [OF k(5)] \<open>c' = c\<close> \<open>u' = u\<close>
  have "items t' c = Some (item_de c u)" "c \<noteq> []" by simp_all
  have "redirecionar L ev' t' =
          (\<lparr>statusCode = 301, headers = [(str ''Location'', u)], body = Vazio\<rparr>,
           t'\<lparr>chamadas := chamadas t' @ [GetItem c]\<rparr>)"
    using assms(7,8) \<open>c \<noteq> []\<close> \<open>items t' c = Some (item_de c u)\<close> url_original_item_de k(3,4) \<open>u' = u\<close>
    by (intro redirecionar_found) auto
  then show ?thesis by simp
qed

theorem round_trip_witness:
  "fst (redirecionar lib0 (get_codigo (str ''aaaaaa''))
         (snd (snd (criar_encurtamento lib0
            (post_encurtar (str ''{\"url\": \"https://example.com\"}'')) rng_zero tabela_vazia)))) =
     \<lparr>statusCode = 301, headers = [(str ''Location'', str ''https://example.com'')], body = Vazio\<rparr>"
proof (rule round_trip)
  show "ev_body (post_encurtar (str ''{\"url\": \"https://example.com\"}'')) =
          Some (str ''{\"url\": \"https://example.com\"}'')"
    by (simp add: post_encurtar_def)
  show "json_loads (str ''{\"url\": \"https://example.com\"}'') =
          Inr (JObj [(str ''url'', JStr (str ''https://example.com''))])"
    by (rule json_example_com)
  show "dict_get [(str ''url'', JStr (str ''https://example.com''))] (str ''url'') =
          Some (JStr (str ''https://example.com''))"
    by (rule dict_get_url)
  show "criar_encurtamento lib0 (post_encurtar (str ''{\"url\": \"https://example.com\"}''))
          rng_zero tabela_vazia =
        (fst (criar_encurtamento lib0 (post_encurtar (str ''{\"url\": \"https://example.com\"}''))
               rng_zero tabela_vazia),
         rng_zero,
         snd (snd (criar_encurtamento lib0
            (post_encurtar (str ''{\"url\": \"https://example.com\"}'')) rng_zero tabela_vazia)))"
    by (simp add: criar_example_com gerar_codigo_rng_zero tabela_vazia_def)
  show "statusCode (fst (criar_encurtamento lib0
          (post_encurtar (str ''{\"url\": \"https://example.com\"}'')) rng_zero tabela_vazia)) = 201"
    by (simp add: criar_example_com gerar_codigo_rng_zero tabela_vazia_def resp_def)
  show "body (fst (criar_encurtamento lib0
          (post_encurtar (str ''{\"url\": \"https://example.com\"}'')) rng_zero tabela_vazia)) =
        Encurtada (str ''aaaaaa'') (str ''/aaaaaa'')"
    by (simp add: criar_example_com gerar_codigo_rng_zero tabela_vazia_def resp_def str_append str_eq_iff)
  show "pathParameters (get_codigo (str ''aaaaaa'')) = Valor [(str ''codigo'', str ''aaaaaa'')]"
    by (simp add: get_codigo_def)
  show "map_of [(str ''codigo'', str ''aaaaaa'')] (str ''codigo'') = Some (str ''aaaaaa'')"
    by simp
qed

text \<open>
  C2 (a body that is not JSON), as amended. A body that is missing or empty is read as
  \<^verbatim>\<open>{}\<close> and \<open>criar_encurtamento\<close> answers 400. A body that is present, not empty and
  refused by \<^verbatim>\<open>json.loads\<close> makes the decoding raise; the outer handler answers 500 with
  the text of the exception, and the table is not touched.
\<close>

theorem corpo_nao_json:
  "(ev_body ev = Some b \<and> b \<noteq> [] \<and> json_loads b = Inl e \<longrightarrow>
      criar_encurtamento L ev r t = (resp 500 (Erro (Excecao e)), r, t))
   \<and> (ev_body ev = None \<or> ev_body ev = Some [] \<longrightarrow>
      criar_encurtamento L ev r t = (resp 400 (Erro URL_invalida), r, t))"
  by (auto simp: criar_encurtamento_def corpo_texto_def json_loads_empty_object dict_get_def)

text \<open>The amended C2 at the body \<^verbatim>\<open>not json\<close> and at the empty body.\<close>

theorem corpo_nao_json_witness:
  "criar_encurtamento lib0 (post_encurtar (str ''not json'')) rng_zero tabela_vazia =
     (resp 500 (Erro (Excecao JSONDecodeError)), rng_zero, tabela_vazia)
   \<and> criar_encurtamento lib0 (post_encurtar []) rng_zero tabela_vazia =
     (resp 400 (Erro URL_invalida), rng_zero, tabela_vazia)"
  using corpo_nao_json [of "post_encurtar (str ''not json'')" "str ''not json''" JSONDecodeError
      lib0 rng_zero tabela_vazia]
    corpo_nao_json [of "post_encurtar []" "[]" JSONDecodeError lib0 rng_zero tabela_vazia]
  by (simp add: post_encurtar_def json_example_not_json str_Nil_iff)

text \<open>
  C2 as stated fails: the body \<^verbatim>\<open>not json\<close> is not JSON, and the answer is 500, not the 400
  of a missing body.
\<close>

theorem corpo_nao_json_counterexample:
  "json_loads (str ''not json'') = Inl JSONDecodeError
   \<and> statusCode (fst (criar_encurtamento lib0 (post_encurtar (str ''not json''))
         rng_zero tabela_vazia)) = 500
   \<and> statusCode (fst (criar_encurtamento lib0 (post_encurtar (str ''not json''))
         rng_zero tabela_vazia)) \<noteq> 400"
  by (simp add: json_example_not_json criar_encurtamento_def corpo_texto_post str_Nil_iff resp_def)

text \<open>
  C3 (exhaustion) does not hold of the program. The table holds \<^verbatim>\<open>aaaaaa\<close> and every
  generated code is \<^verbatim>\<open>aaaaaa\<close>, so all five candidates collide. The first insert fails
  its condition; the lookup of \<^verbatim>\<open>boto3.exceptions.ClientError\<close> in the handler raises
  \<^verbatim>\<open>AttributeError\<close>, and the program answers 500 with that exception after one insert
  attempt, not five. Lemma \<open>tentar_esgota\<close> shows the claimed behaviour of the loop for a
  module that binds \<^verbatim>\<open>ClientError\<close>.
\<close>

theorem exaustao_interrompida:
  "codigos rng_zero 5 =
     [str ''aaaaaa'', str ''aaaaaa'', str ''aaaaaa'', str ''aaaaaa'', str ''aaaaaa'']
   \<and> items tabela_aaaaaa (str ''aaaaaa'') \<noteq> None
   \<and> criar_encurtamento lib0 (post_encurtar (str ''{\"url\": \"https://example.com\"}''))
         rng_zero tabela_aaaaaa =
       (resp 500 (Erro (Excecao AttributeError)), rng_zero,
        tabela_aaaaaa\<lparr>chamadas := [PutItem (str ''aaaaaa'')]\<rparr>)"
  by (simp add: eval_nat_numeral gerar_codigo_rng_zero criar_example_com tabela_aaaaaa_def)

text \<open>
  C4 (retry) does not hold of the program. The table holds \<^verbatim>\<open>aaaaaa\<close>, the first generated
  code is \<^verbatim>\<open>aaaaaa\<close> and the second, \<^verbatim>\<open>bbbbbb\<close>, is fresh. The program does not try the
  second code: it answers 500 after the first insert attempt, for the reason given at C3.
  Lemma \<open>tentar_retenta\<close> shows the claimed behaviour of the loop for a module that binds
  \<^verbatim>\<open>ClientError\<close>.
\<close>

theorem nova_tentativa_interrompida:
  "codigos rng_ab 2 = [str ''aaaaaa'', str ''bbbbbb'']
   \<and> items tabela_aaaaaa (str ''aaaaaa'') \<noteq> None
   \<and> items tabela_aaaaaa (str ''bbbbbb'') = None
   \<and> criar_encurtamento lib0 (post_encurtar (str ''{\"url\": \"https://example.com\"}''))
         rng_ab tabela_aaaaaa =
       (resp 500 (Erro (Excecao AttributeError)), rng_b,
        tabela_aaaaaa\<lparr>chamadas := [PutItem (str ''aaaaaa'')]\<rparr>)"
  by (simp add: eval_nat_numeral gerar_codigo_rng_ab gerar_codigo_rng_b criar_example_com
      tabela_aaaaaa_def str_eq_iff)

text \<open>
  C5 (validity of a URL), as amended. \<open>url_valida\<close> holds of a string exactly when
  \<^verbatim>\<open>urlparse\<close> returns a result whose scheme is \<^verbatim>\<open>http\<close> or \<^verbatim>\<open>https\<close> and whose netloc is
  not empty; a failure of \<^verbatim>\<open>urlparse\<close> makes the string invalid. \<open>criar_encurtamento\<close>
  answers 400 for the URLs \<^verbatim>\<open>not-a-url\<close>, \<^verbatim>\<open>ftp://host/x\<close> and \<^verbatim>\<open>https://\<close>. For
  \<^verbatim>\<open>https://example.com\<close> it never answers 400, and it answers 201 when the generated code
  is not in the table. What it answers when that code is in the table is left open here.
\<close>

theorem url_valida_predicate:
  "(url_valida L s \<longleftrightarrow>
      (\<exists>p. urlparse L s = Inr p \<and> (scheme p = str ''http'' \<or> scheme p = str ''https'')
         \<and> netloc p \<noteq> []))
   \<and> (\<forall>e. urlparse L s = Inl e \<longrightarrow> \<not> url_valida L s)
   \<and> criar_encurtamento L (post_encurtar (str ''{\"url\": \"not-a-url\"}'')) r t =
       (resp 400 (Erro URL_invalida), r, t)
   \<and> criar_encurtamento L (post_encurtar (str ''{\"url\": \"ftp://host/x\"}'')) r t =
       (resp 400 (Erro URL_invalida), r, t)
   \<and> criar_encurtamento L (post_encurtar (str ''{\"url\": \"https://\"}'')) r t =
       (resp 400 (Erro URL_invalida), r, t)
   \<and> statusCode (fst (criar_encurtamento L
          (post_encurtar (str ''{\"url\": \"https://example.com\"}'')) r t)) \<noteq> 400
   \<and> (items t (fst (gerar_codigo r)) = None \<longrightarrow>
        statusCode (fst (criar_encurtamento L
          (post_encurtar (str ''{\"url\": \"https://example.com\"}'')) r t)) = 201)"
proof (intro conjI)
  show "statusCode (fst (criar_encurtamento L
          (post_encurtar (str ''{\"url\": \"https://example.com\"}'')) r t)) \<noteq> 400"
    by (simp add: criar_example_com resp_def)
  show "url_valida L s \<longleftrightarrow>
      (\<exists>p. urlparse L s = Inr p \<and> (scheme p = str ''http'' \<or> scheme p = str ''https'')
         \<and> netloc p \<noteq> [])"
    by (cases "urlparse L s") (simp_all add: url_valida_def)
  show "\<forall>e. urlparse L s = Inl e \<longrightarrow> \<not> url_valida L s"
    by (simp add: url_valida_def)
  show "criar_encurtamento L (post_encurtar (str ''{\"url\": \"not-a-url\"}'')) r t =
       (resp 400 (Erro URL_invalida), r, t)"
    by (rule criar_url_recusada [OF _ json_example_not_a_url url_example_not_a_url])
      (simp add: str_Nil_iff)
  show "criar_encurtamento L (post_encurtar (str ''{\"url\": \"ftp://host/x\"}'')) r t =
       (resp 400 (Erro URL_invalida), r, t)"
    by (rule criar_url_recusada [OF _ json_example_ftp url_example_ftp]) (simp add: str_Nil_iff)
  show "criar_encurtamento L (post_encurtar (str ''{\"url\": \"https://\"}'')) r t =
       (resp 400 (Erro URL_invalida), r, t)"
    by (rule criar_url_recusada [OF _ json_example_no_host url_example_no_host])
      (simp add: str_Nil_iff)
  show "items t (fst (gerar_codigo r)) = None \<longrightarrow>
        statusCode (fst (criar_encurtamento L
          (post_encurtar (str ''{\"url\": \"https://example.com\"}'')) r t)) = 201"
    by (simp add: criar_example_com resp_def)
qed

text \<open>C5 at \<^verbatim>\<open>https://example.com\<close>, on the empty table.\<close>

theorem url_valida_predicate_witness:
  "url_valida lib0 (str ''https://example.com'')
   \<and> urlparse lib0 (str ''https://example.com'') =
       Inr \<lparr>scheme = str ''https'', netloc = str ''example.com''\<rparr>
   \<and> statusCode (fst (criar_encurtamento lib0
          (post_encurtar (str ''{\"url\": \"https://example.com\"}'')) rng_zero tabela_vazia)) = 201
   \<and> statusCode (fst (criar_encurtamento lib0
          (post_encurtar (str ''{\"url\": \"https://\"}'')) rng_zero tabela_vazia)) = 400"
proof -
  have p: "urlparse lib0 (str ''https://example.com'') =
       Inr \<lparr>scheme = str ''https'', netloc = str ''example.com''\<rparr>"
    by (simp add: url_eval)
  have f: "items tabela_vazia (fst (gerar_codigo rng_zero)) = None"
    by (simp add: tabela_vazia_def)
  from url_valida_predicate [of lib0 "str ''https://example.com''" rng_zero tabela_vazia] p f
  show ?thesis by (simp add: resp_def str_Nil_iff)
qed

text \<open>
  C5 as stated fails: \<^verbatim>\<open>https://example.com\<close> is valid, yet on the table that holds
  \<^verbatim>\<open>aaaaaa\<close>, with a generator whose every code is \<^verbatim>\<open>aaaaaa\<close>, the answer is 500 and not
  201. All five candidate codes are taken there, so no code can be inserted.
\<close>

theorem url_valida_predicate_counterexample:
  "url_valida lib0 (str ''https://example.com'')
   \<and> set (codigos rng_zero 5) = {str ''aaaaaa''}
   \<and> items tabela_aaaaaa (str ''aaaaaa'') \<noteq> None
   \<and> statusCode (fst (criar_encurtamento lib0
          (post_encurtar (str ''{\"url\": \"https://example.com\"}'')) rng_zero tabela_aaaaaa)) = 500
   \<and> statusCode (fst (criar_encurtamento lib0
          (post_encurtar (str ''{\"url\": \"https://example.com\"}'')) rng_zero tabela_aaaaaa))
       \<noteq> 201"
  by (simp add: url_example_com eval_nat_numeral gerar_codigo_rng_zero criar_example_com
      tabela_aaaaaa_def resp_def)

text \<open>
  C6 (routing). \<open>handler\<close> hands the event to \<open>criar_encurtamento\<close> exactly when the
  method is \<^verbatim>\<open>POST\<close> and the path ends with \<^verbatim>\<open>/encurtar\<close>; otherwise it hands it to
  \<open>redirecionar\<close> exactly when the method is \<^verbatim>\<open>GET\<close> and the path parameters hold a
  \<^verbatim>\<open>codigo\<close> that is not empty; in every other case it answers 400 and returns the table
  as it received it, with no call made to it.
\<close>

theorem routing:
  "(httpMethod ev = Some (str ''POST'') \<and> endswith (caminho ev) (str ''/encurtar'') \<longrightarrow>
      handler L ev r t = criar_encurtamento L ev r t)
   \<and> (\<not> (httpMethod ev = Some (str ''POST'') \<and> endswith (caminho ev) (str ''/encurtar''))
       \<and> httpMethod ev = Some (str ''GET'')
       \<and> (\<exists>ps c. pathParameters ev = Valor ps \<and> map_of ps (str ''codigo'') = Some c \<and> c \<noteq> [])
       \<longrightarrow> handler L ev r t = (fst (redirecionar L ev t), r, snd (redirecionar L ev t)))
   \<and> (\<not> (httpMethod ev = Some (str ''POST'') \<and> endswith (caminho ev) (str ''/encurtar''))
       \<and> \<not> (httpMethod ev = Some (str ''GET'')
            \<and> (\<exists>ps c. pathParameters ev = Valor ps \<and> map_of ps (str ''codigo'') = Some c
                  \<and> c \<noteq> []))
       \<longrightarrow> handler L ev r t = (resp 400 (Erro Requisicao_invalida), r, t))"
  unfolding tem_codigo_iff [symmetric]
  by (cases "redirecionar L ev t") (auto simp: handler_def)

text \<open>
  C6 at \<^verbatim>\<open>POST /encurtar\<close>, \<^verbatim>\<open>GET /abc123\<close> and \<^verbatim>\<open>DELETE /x\<close>.
\<close>

theorem routing_witness:
  "handler lib0 (post_encurtar (str ''{}'')) rng_zero tabela_vazia =
     criar_encurtamento lib0 (post_encurtar (str ''{}'')) rng_zero tabela_vazia
   \<and> handler lib0 (get_codigo (str ''abc123'')) rng_zero tabela_vazia =
     (fst (redirecionar lib0 (get_codigo (str ''abc123'')) tabela_vazia), rng_zero,
      snd (redirecionar lib0 (get_codigo (str ''abc123'')) tabela_vazia))
   \<and> handler lib0 delete_x rng_zero tabela_vazia =
     (resp 400 (Erro Requisicao_invalida), rng_zero, tabela_vazia)"
proof -
  have post: "httpMethod (post_encurtar (str ''{}'')) = Some (str ''POST'')
      \<and> endswith (caminho (post_encurtar (str ''{}''))) (str ''/encurtar'')"
    by (simp add: post_encurtar_def caminho_def endswith_def)
  have get: "\<not> (httpMethod (get_codigo (str ''abc123'')) = Some (str ''POST'')
        \<and> endswith (caminho (get_codigo (str ''abc123''))) (str ''/encurtar''))
      \<and> httpMethod (get_codigo (str ''abc123'')) = Some (str ''GET'')
      \<and> (\<exists>ps c. pathParameters (get_codigo (str ''abc123'')) = Valor ps
            \<and> map_of ps (str ''codigo'') = Some c \<and> c \<noteq> [])"
    by (simp add: get_codigo_def str_eq_iff str_Nil_iff)
  have del: "\<not> (httpMethod delete_x = Some (str ''POST'')
        \<and> endswith (caminho delete_x) (str ''/encurtar''))
      \<and> \<not> (httpMethod delete_x = Some (str ''GET'')
            \<and> (\<exists>ps c. pathParameters delete_x = Valor ps \<and> map_of ps (str ''codigo'') = Some c
                  \<and> c \<noteq> []))"
    by (simp add: delete_x_def str_eq_iff)
  from routing [of "post_encurtar (str ''{}'')" lib0 rng_zero tabela_vazia] post
    routing [of "get_codigo (str ''abc123'')" lib0 rng_zero tabela_vazia] get
    routing [of delete_x lib0 rng_zero tabela_vazia] del
  show ?thesis by blast
qed

text \<open>
  C7 (code not found), as amended. For every code that is not empty: when the table holds
  no item under the code, or the item has no attribute \<^verbatim>\<open>url_original\<close>, \<open>redirecionar\<close>
  answers 404. In particular it answers 404 for every such code on an empty table.
\<close>

theorem codigo_nao_encontrado:
  assumes "pathParameters ev = Valor ps"
      and "map_of ps (str ''codigo'') = Some c"
      and "c \<noteq> []"
      and "items t c = None \<or> (\<exists>it. items t c = Some it \<and> map_of it (str ''url_original'') = None)"
  shows "fst (redirecionar L ev t) = resp 404 (Erro Codigo_nao_encontrado)"
  using assms by (auto simp: redirecionar_def get_item_def)

text \<open>The amended C7 at the code \<^verbatim>\<open>zzzzzz\<close> on the empty table.\<close>

theorem codigo_nao_encontrado_witness:
  "fst (redirecionar lib0 (get_codigo (str ''zzzzzz'')) tabela_vazia) =
     resp 404 (Erro Codigo_nao_encontrado)"
proof (rule codigo_nao_encontrado)
  show "pathParameters (get_codigo (str ''zzzzzz'')) = Valor [(str ''codigo'', str ''zzzzzz'')]"
    by (simp add: get_codigo_def)
  show "map_of [(str ''codigo'', str ''zzzzzz'')] (str ''codigo'') = Some (str ''zzzzzz'')"
    by simp
  show "str ''zzzzzz'' \<noteq> []"
    by (simp add: str_Nil_iff)
  show "items tabela_vazia (str ''zzzzzz'') = None
      \<or> (\<exists>it. items tabela_vazia (str ''zzzzzz'') = Some it
            \<and> map_of it (str ''url_original'') = None)"
    by (simp add: tabela_vazia_def)
qed

text \<open>
  C7 as stated fails at the empty code: the table holds no item under it, and the guard
  \<^verbatim>\<open>if not codigo\<close> answers 400 before the table is consulted.
\<close>

theorem codigo_nao_encontrado_counterexample:
  "items tabela_vazia [] = None
   \<and> statusCode (fst (redirecionar lib0 (get_codigo []) tabela_vazia)) = 400
   \<and> statusCode (fst (redirecionar lib0 (get_codigo []) tabela_vazia)) \<noteq> 404"
  by (simp add: tabela_vazia_def redirecionar_def get_codigo_def resp_def)

text \<open>
  C8 (existing records are not changed). An item that the table holds before
  \<open>criar_encurtamento\<close> is the same after it, and a key whose item differs after the call
  had no item before: the operation only inserts under a key that does not exist yet.
  \<open>redirecionar\<close> leaves all items as they are and attempts no insert. The same item is
  still there after \<open>handler\<close>, whichever route it takes.
\<close>

theorem registros_imutaveis:
  "(items t k = Some it \<longrightarrow> items (snd (snd (criar_encurtamento L ev r t))) k = Some it)
   \<and> (items (snd (snd (criar_encurtamento L ev r t))) k \<noteq> items t k \<longrightarrow> items t k = None)
   \<and> items (snd (redirecionar L ev t)) = items t
   \<and> escritas (snd (redirecionar L ev t)) = escritas t
   \<and> (items t k = Some it \<longrightarrow> items (snd (snd (handler L ev r t))) k = Some it)"
proof (intro conjI impI)
  obtain rp r' t' where c: "criar_encurtamento L ev r t = (rp, r', t')"
    by (cases "criar_encurtamento L ev r t")
  show "items (snd (snd (criar_encurtamento L ev r t))) k = Some it" if "items t k = Some it"
    using criar_frame [OF c that] c by simp
  show "items t k = None" if "items (snd (snd (criar_encurtamento L ev r t))) k \<noteq> items t k"
    using criar_changes [OF c, of k] that c by simp
  show "items (snd (redirecionar L ev t)) = items t"
    by (rule redirecionar_items)
  show "escritas (snd (redirecionar L ev t)) = escritas t"
    by (rule escritas_redirecionar)
  show "items (snd (snd (handler L ev r t))) k = Some it" if "items t k = Some it"
  proof -
    have "items (snd (redirecionar L ev t)) k = Some it"
      using that by (simp add: redirecionar_items)
    with criar_frame [OF c that] c that show ?thesis
      by (cases "redirecionar L ev t") (simp add: handler_def)
  qed
qed

text \<open>
  C8 on the table that holds \<^verbatim>\<open>aaaaaa\<close>: a creation that inserts \<^verbatim>\<open>bbbbbb\<close>, and a lookup.
\<close>

theorem registros_imutaveis_witness:
  "items (snd (snd (criar_encurtamento lib0
       (post_encurtar (str ''{\"url\": \"https://example.com\"}'')) rng_b tabela_aaaaaa)))
     (str ''aaaaaa'') = Some (item_de (str ''aaaaaa'') (str ''https://example.org''))
   \<and> items (snd (snd (criar_encurtamento lib0
       (post_encurtar (str ''{\"url\": \"https://example.com\"}'')) rng_b tabela_aaaaaa)))
     (str ''bbbbbb'') = Some (item_de (str ''bbbbbb'') (str ''https://example.com''))
   \<and> items tabela_aaaaaa (str ''bbbbbb'') = None
   \<and> items (snd (redirecionar lib0 (get_codigo (str ''aaaaaa'')) tabela_aaaaaa)) =
       items tabela_aaaaaa"
proof -
  have old: "items tabela_aaaaaa (str ''aaaaaa'') =
      Some (item_de (str ''aaaaaa'') (str ''https://example.org''))"
    by (simp add: tabela_aaaaaa_def)
  have new: "items (snd (snd (criar_encurtamento lib0
       (post_encurtar (str ''{\"url\": \"https://example.com\"}'')) rng_b tabela_aaaaaa)))
     (str ''bbbbbb'') = Some (item_de (str ''bbbbbb'') (str ''https://example.com''))"
    by (simp add: criar_example_com gerar_codigo_rng_b tabela_aaaaaa_def str_eq_iff)
  have fresh: "items tabela_aaaaaa (str ''bbbbbb'') = None"
    by (simp add: tabela_aaaaaa_def str_eq_iff)
  from registros_imutaveis [of tabela_aaaaaa "str ''aaaaaa''"
      "item_de (str ''aaaaaa'') (str ''https://example.org'')" lib0
      "post_encurtar (str ''{\"url\": \"https://example.com\"}'')" rng_b]
    registros_imutaveis [of tabela_aaaaaa "str ''aaaaaa''"
      "item_de (str ''aaaaaa'') (str ''https://example.org'')" lib0
      "get_codigo (str ''aaaaaa'')" rng_b]
    old new fresh
  show ?thesis by simp
qed

text \<open>
  C9 (defensive check). When the item stored under a code has a \<^verbatim>\<open>url_original\<close> that is a
  string, not empty and not valid, \<open>redirecionar\<close> answers 500 with the message of the
  consistency check. The branch is not reached for an item written by
  \<open>criar_encurtamento\<close>: such an item holds a URL that is not empty and valid, and
  \<open>redirecionar\<close> answers 301 for its code.
\<close>

theorem verificacao_defensiva:
  assumes "pathParameters ev = Valor ps"
      and "map_of ps (str ''codigo'') = Some c"
      and "tabela_ok t"
      and "items t c = Some it"
      and "map_of it (str ''url_original'') = Some (AttrS u)"
      and "u \<noteq> []"
      and "\<not> url_valida L u"
      and "criar_encurtamento L ev0 r t0 = (rp, r', t1)"
      and "items t1 k \<noteq> items t0 k"
      and "pathParameters ev1 = Valor ps1"
      and "map_of ps1 (str ''codigo'') = Some k"
  shows "fst (redirecionar L ev t) = resp 500 (Erro URL_original_invalida_no_DB)
     \<and> (\<exists>u'. items t1 k = Some (item_de k u') \<and> u' \<noteq> [] \<and> url_valida L u')
     \<and> statusCode (fst (redirecionar L ev1 t1)) = 301"
proof (intro conjI)
  have "c \<noteq> []" using assms(3,4) by (rule tabela_ok_key)
  with assms(1,2,4-7) show "fst (redirecionar L ev t) = resp 500 (Erro URL_original_invalida_no_DB)"
    by (simp add: redirecionar_def get_item_def)
  from criar_changes [OF assms(8,9)] obtain u' where
    w: "items t1 k = Some (item_de k u')" "u' \<noteq> []" "url_valida L u'" "k \<noteq> []"
    by blast
  then show "\<exists>u'. items t1 k = Some (item_de k u') \<and> u' \<noteq> [] \<and> url_valida L u'"
    by blast
  from redirecionar_found [OF assms(10,11) w(4,1) url_original_item_de w(2,3)]
  show "statusCode (fst (redirecionar L ev1 t1)) = 301" by simp
qed

text \<open>
  C9 on a table whose item \<^verbatim>\<open>aaaaaa\<close> holds \<^verbatim>\<open>ftp://host/x\<close>, and on the table that a
  creation for \<^verbatim>\<open>https://example.com\<close> leaves.
\<close>

theorem verificacao_defensiva_witness:
  "fst (redirecionar lib0 (get_codigo (str ''aaaaaa''))
      (tabela_com (str ''aaaaaa'') (item_de (str ''aaaaaa'') (str ''ftp://host/x'')))) =
     resp 500 (Erro URL_original_invalida_no_DB)
   \<and> statusCode (fst (redirecionar lib0 (get_codigo (str ''aaaaaa''))
        (snd (snd (criar_encurtamento lib0
          (post_encurtar (str ''{\"url\": \"https://example.com\"}'')) rng_zero tabela_vazia))))) = 301"
proof -
  let ?bad = "tabela_com (str ''aaaaaa'') (item_de (str ''aaaaaa'') (str ''ftp://host/x''))"
  let ?ev0 = "post_encurtar (str ''{\"url\": \"https://example.com\"}'')"
  let ?t1 = "snd (snd (criar_encurtamento lib0 ?ev0 rng_zero tabela_vazia))"
  have a1: "pathParameters (get_codigo (str ''aaaaaa'')) = Valor [(str ''codigo'', str ''aaaaaa'')]"
    by (simp add: get_codigo_def)
  have a2: "map_of [(str ''codigo'', str ''aaaaaa'')] (str ''codigo'') = Some (str ''aaaaaa'')"
    by simp
  have a3: "tabela_ok ?bad"
    by (simp add: tabela_ok_def tabela_com_def str_def)
  have a4: "items ?bad (str ''aaaaaa'') = Some (item_de (str ''aaaaaa'') (str ''ftp://host/x''))"
    by (simp add: tabela_com_def)
  have a6: "str ''ftp://host/x'' \<noteq> []"
    by (simp add: str_Nil_iff)
  have a8: "criar_encurtamento lib0 ?ev0 rng_zero tabela_vazia =
      (fst (criar_encurtamento lib0 ?ev0 rng_zero tabela_vazia), rng_zero, ?t1)"
    by (simp add: criar_example_com gerar_codigo_rng_zero tabela_vazia_def)
  have a9: "items ?t1 (str ''aaaaaa'') \<noteq> items tabela_vazia (str ''aaaaaa'')"
    by (simp add: criar_example_com gerar_codigo_rng_zero tabela_vazia_def)
  from verificacao_defensiva [OF a1 a2 a3 a4 url_original_item_de a6 url_example_ftp a8 a9 a1 a2]
  show ?thesis by simp
qed

text \<open>
  C10 (empty stored URL). When the item stored under a code has a \<^verbatim>\<open>url_original\<close> equal to
  the empty string, \<open>redirecionar\<close> answers 404 as for a code that is not found, not the
  500 of the consistency check.
\<close>

theorem url_vazia_nao_encontrada:
  assumes "pathParameters ev = Valor ps"
      and "map_of ps (str ''codigo'') = Some c"
      and "tabela_ok t"
      and "items t c = Some it"
      and "map_of it (str ''url_original'') = Some (AttrS [])"
  shows "fst (redirecionar L ev t) = resp 404 (Erro Codigo_nao_encontrado)
     \<and> fst (redirecionar L ev t) \<noteq> resp 500 (Erro URL_original_invalida_no_DB)"
proof -
  have "c \<noteq> []" using assms(3,4) by (rule tabela_ok_key)
  with assms(1,2,4,5) show ?thesis
    by (simp add: redirecionar_def get_item_def resp_def)
qed

text \<open>C10 on a table whose item \<^verbatim>\<open>aaaaaa\<close> holds the empty string.\<close>

theorem url_vazia_nao_encontrada_witness:
  "fst (redirecionar lib0 (get_codigo (str ''aaaaaa''))
      (tabela_com (str ''aaaaaa'') (item_de (str ''aaaaaa'') []))) =
     resp 404 (Erro Codigo_nao_encontrado)"
proof -
  let ?t = "tabela_com (str ''aaaaaa'') (item_de (str ''aaaaaa'') [])"
  have a1: "pathParameters (get_codigo (str ''aaaaaa'')) = Valor [(str ''codigo'', str ''aaaaaa'')]"
    by (simp add: get_codigo_def)
  have a2: "map_of [(str ''codigo'', str ''aaaaaa'')] (str ''codigo'') = Some (str ''aaaaaa'')"
    by simp
  have a3: "tabela_ok ?t"
    by (simp add: tabela_ok_def tabela_com_def str_def)
  have a4: "items ?t (str ''aaaaaa'') = Some (item_de (str ''aaaaaa'') [])"
    by (simp add: tabela_com_def)
  from url_vazia_nao_encontrada [OF a1 a2 a3 a4 url_original_item_de]
  show ?thesis by simp
qed

end
